theory Spec2Isabelle
  imports
    Main
    "HOL-Library.Sublist"
    "HOL-Library.Multiset"
    "HOL-Library.Char_ord"
    "HOL-Library.List_Lexorder"
begin

text \<open>
  The endpoint index (\<^verbatim>\<open>openapi-parser.ts\<close>) and the query engine (class
  \<^verbatim>\<open>FortnoxMCPServer\<close>) of the Fortnox documentation server.

  \<^item> Nothing checks the parsed file against the TypeScript interfaces. The model lets
    a value be absent wherever the program raises an exception or takes another branch
    for an absent value: the top-level fields of the document, a path item (which may
    be \<^verbatim>\<open>null\<close>), the \<^verbatim>\<open>responses\<close> of an operation and the \<^verbatim>\<open>content\<close> of a
    request body, besides the fields that the interfaces declare optional. A value that
    is present has the shape that its interface declares.
  \<^item> An object is the list of its own entries in the order in which the platform
    enumerates its keys. Where the program reads a property under a name that comes
    from its input, the members that every object inherits from \<^verbatim>\<open>Object.prototype\<close>
    are part of the model.
  \<^item> The case mappings and the string comparison of the platform are parameters,
    except for the case mappings of ASCII strings.
  \<^item> A tool answers with a text; the model gives the values that the text prints, not the
    markdown around them.
  \<^item> A limit is an integer.
\<close>

section \<open>JavaScript strings, arrays and objects\<close>

subsection \<open>Strings\<close>

text \<open>
  A string is the list of its characters, a character outside ASCII standing as the
  bytes of its UTF-8 form, so that equality, \<^verbatim>\<open>includes\<close>, \<^verbatim>\<open>startsWith\<close> and
  \<^verbatim>\<open>replace\<close> are those of lists.
\<close>

definition lowerLetters :: string where
  "lowerLetters = ''abcdefghijklmnopqrstuvwxyz''"

definition upperLetters :: string where
  "upperLetters = ''ABCDEFGHIJKLMNOPQRSTUVWXYZ''"

definition toUpperChar :: "char \<Rightarrow> char" where
  "toUpperChar c =
     (case map_of (zip lowerLetters upperLetters) c of None \<Rightarrow> c | Some u \<Rightarrow> u)"

definition toLowerChar :: "char \<Rightarrow> char" where
  "toLowerChar c =
     (case map_of (zip upperLetters lowerLetters) c of None \<Rightarrow> c | Some l \<Rightarrow> l)"

definition isAscii :: "char \<Rightarrow> bool" where
  "isAscii c = ((of_char c :: nat) < 128)"

text \<open>
  What the platform provides beyond ASCII: the Unicode case mappings
  \<^verbatim>\<open>toLowerCase\<close> and \<^verbatim>\<open>toUpperCase\<close> of a string that has a character outside
  ASCII, and the comparison \<^verbatim>\<open>a.localeCompare(b)\<close>.
\<close>

record Platform =
  lowerCaseOf :: "string \<Rightarrow> string"
  upperCaseOf :: "string \<Rightarrow> string"
  localeCompare :: "string \<Rightarrow> string \<Rightarrow> int"

text \<open>
  \<^verbatim>\<open>s.toUpperCase()\<close> and \<^verbatim>\<open>s.toLowerCase()\<close>: on a string of ASCII characters
  the 26 letters are mapped and every other character is kept.
\<close>

definition toUpperCase :: "Platform \<Rightarrow> string \<Rightarrow> string" where
  "toUpperCase pf s = (if list_all isAscii s then map toUpperChar s else upperCaseOf pf s)"

definition toLowerCase :: "Platform \<Rightarrow> string \<Rightarrow> string" where
  "toLowerCase pf s = (if list_all isAscii s then map toLowerChar s else lowerCaseOf pf s)"

text \<open>\<^verbatim>\<open>s.includes(k)\<close>: \<open>k\<close> occurs in \<open>s\<close> as a contiguous run.\<close>

fun str_includes :: "string \<Rightarrow> string \<Rightarrow> bool" where
  "str_includes [] k = (k = [])"
| "str_includes (c # cs) k = (prefix k (c # cs) \<or> str_includes cs k)"

text \<open>\<^verbatim>\<open>s.startsWith(p)\<close>.\<close>

definition startsWith :: "string \<Rightarrow> string \<Rightarrow> bool" where
  "startsWith s p = prefix p s"

text \<open>
  \<^verbatim>\<open>s.replace(pat, rep)\<close> with a string pattern: only the first occurrence of \<open>pat\<close>,
  wherever it is, is replaced. (Every call of the program passes the empty replacement,
  so the special replacement patterns of the platform play no role.)
\<close>

fun replace :: "string \<Rightarrow> string \<Rightarrow> string \<Rightarrow> string" where
  "replace [] pat rep = (if pat = [] then rep else [])"
| "replace (c # cs) pat rep =
     (if prefix pat (c # cs) then rep @ drop (length pat) (c # cs)
      else c # replace cs pat rep)"

text \<open>Truthiness of an optional string: absent and the empty string are falsy.\<close>

definition truthy :: "string option \<Rightarrow> bool" where
  "truthy v = (case v of None \<Rightarrow> False | Some s \<Rightarrow> s \<noteq> [])"

text \<open>\<^verbatim>\<open>v || d\<close> for an optional string \<open>v\<close>.\<close>

definition or_default :: "string option \<Rightarrow> string \<Rightarrow> string" where
  "or_default v d = (case v of None \<Rightarrow> d | Some s \<Rightarrow> if s = [] then d else s)"

text \<open>The string held by an optional string that has been tested truthy.\<close>

definition str :: "string option \<Rightarrow> string" where
  "str v = (case v of None \<Rightarrow> [] | Some s \<Rightarrow> s)"

text \<open>\<^verbatim>\<open>parts.join(sep)\<close>.\<close>

fun join :: "string \<Rightarrow> string list \<Rightarrow> string" where
  "join sep [] = []"
| "join sep [x] = x"
| "join sep (x # y # ys) = x @ sep @ join sep (y # ys)"

subsection \<open>Arrays\<close>

text \<open>
  \<^verbatim>\<open>xs.slice(0, n)\<close> for an integer \<open>n\<close>: a negative end counts from the end of the
  array.
\<close>

definition slice0 :: "'a list \<Rightarrow> int \<Rightarrow> 'a list" where
  "slice0 xs n = (if n < 0 then take (nat (int (length xs) + n)) xs else take (nat n) xs)"

text \<open>
  \<^verbatim>\<open>xs.sort(cmp)\<close>. A comparator returns a number, \<open>None\<close> standing for
  \<^verbatim>\<open>NaN\<close>. The language fixes the result only for a comparator that is consistent on
  the elements of the array: it never returns \<^verbatim>\<open>NaN\<close>, every element compares
  equal to itself, comparing equal is symmetric and transitive, and comparing less and
  comparing greater are transitive. The sort is stable, so the result is then the one
  of insertion sort, where an element goes before the first element of the sorted rest
  that it does not compare greater than. For any other comparator and an array of two
  or more elements the order of the result is left to the platform, and \<open>arraySort\<close>
  returns \<open>None\<close>.
\<close>

fun insert_cmp :: "('a \<Rightarrow> 'a \<Rightarrow> int) \<Rightarrow> 'a \<Rightarrow> 'a list \<Rightarrow> 'a list" where
  "insert_cmp cmp x [] = [x]"
| "insert_cmp cmp x (y # ys) =
     (if cmp x y \<le> 0 then x # y # ys else y # insert_cmp cmp x ys)"

fun sort_cmp :: "('a \<Rightarrow> 'a \<Rightarrow> int) \<Rightarrow> 'a list \<Rightarrow> 'a list" where
  "sort_cmp cmp [] = []"
| "sort_cmp cmp (x # xs) = insert_cmp cmp x (sort_cmp cmp xs)"

definition isNegative :: "int option \<Rightarrow> bool" where
  "isNegative r = (case r of None \<Rightarrow> False | Some v \<Rightarrow> v < 0)"

definition isPositive :: "int option \<Rightarrow> bool" where
  "isPositive r = (case r of None \<Rightarrow> False | Some v \<Rightarrow> 0 < v)"

definition consistentOn :: "('a \<Rightarrow> 'a \<Rightarrow> int option) \<Rightarrow> 'a list \<Rightarrow> bool" where
  "consistentOn cmp xs =
     list_all (\<lambda>a. list_all (\<lambda>b. list_all (\<lambda>c.
         cmp a b \<noteq> None
       \<and> cmp a a = Some 0
       \<and> (cmp a b = Some 0 \<longrightarrow> cmp b a = Some 0)
       \<and> (cmp a b = Some 0 \<and> cmp b c = Some 0 \<longrightarrow> cmp a c = Some 0)
       \<and> (isNegative (cmp a b) \<and> isNegative (cmp b c) \<longrightarrow> isNegative (cmp a c))
       \<and> (isPositive (cmp a b) \<and> isPositive (cmp b c) \<longrightarrow> isPositive (cmp a c))) xs) xs) xs"

definition arraySort :: "('a \<Rightarrow> 'a \<Rightarrow> int option) \<Rightarrow> 'a list \<Rightarrow> 'a list option" where
  "arraySort cmp xs =
     (if length xs \<le> 1 \<or> consistentOn cmp xs
      then Some (sort_cmp (\<lambda>a b. case cmp a b of None \<Rightarrow> 0 | Some v \<Rightarrow> v) xs)
      else None)"

subsection \<open>Objects\<close>

text \<open>
  The names of the members that every object inherits from \<^verbatim>\<open>Object.prototype\<close>.
  All are functions, except \<^verbatim>\<open>__proto__\<close>, an accessor whose getter returns
  \<^verbatim>\<open>Object.prototype\<close> and whose setter ignores a value that is not an object.
\<close>

definition objectPrototype :: "string list" where
  "objectPrototype =
     [''constructor'', ''__defineGetter__'', ''__defineSetter__'', ''hasOwnProperty'',
      ''__lookupGetter__'', ''__lookupSetter__'', ''isPrototypeOf'',
      ''propertyIsEnumerable'', ''toString'', ''valueOf'', ''__proto__'',
      ''toLocaleString'']"

text \<open>
  \<^verbatim>\<open>obj[k]\<close> for an object given by its own entries: the own entry under \<open>k\<close>,
  else the inherited member named \<open>k\<close>, else \<^verbatim>\<open>undefined\<close>.
\<close>

datatype 'a property = Undefined | Own 'a | Inherited string

definition getProperty :: "(string \<times> 'a) list \<Rightarrow> string \<Rightarrow> 'a property" where
  "getProperty obj k =
     (case map_of obj k of
        Some v \<Rightarrow> Own v
      | None \<Rightarrow> if k \<in> set objectPrototype then Inherited k else Undefined)"

text \<open>
  The platform's key order: keys that are array indices (canonical decimal numerals
  below \<open>2^32 - 1\<close>) come first, in ascending numeric order, then every other key in
  the order of its creation. \<open>obj_set\<close> is the assignment \<^verbatim>\<open>obj[k] = v\<close> that
  creates or overwrites an own entry.
\<close>

definition isDigit :: "char \<Rightarrow> bool" where
  "isDigit c = (48 \<le> (of_char c :: nat) \<and> (of_char c :: nat) \<le> 57)"

definition numericValue :: "string \<Rightarrow> nat" where
  "numericValue s = foldl (\<lambda>a c. 10 * a + ((of_char c :: nat) - 48)) 0 s"

definition isArrayIndex :: "string \<Rightarrow> bool" where
  "isArrayIndex s =
     (case s of
        [] \<Rightarrow> False
      | c # cs \<Rightarrow>
          list_all isDigit s \<and> (cs = [] \<or> c \<noteq> CHR ''0'') \<and> numericValue s \<le> 4294967294)"

definition key_before :: "string \<Rightarrow> string \<Rightarrow> bool" where
  "key_before k k' =
     (isArrayIndex k \<and> (if isArrayIndex k' then numericValue k < numericValue k' else True))"

fun obj_set :: "(string \<times> 'v) list \<Rightarrow> string \<Rightarrow> 'v \<Rightarrow> (string \<times> 'v) list" where
  "obj_set [] k v = [(k, v)]"
| "obj_set ((k', v') # es) k v =
     (if k' = k then (k, v) # es
      else if key_before k k' then (k, v) # (k', v') # es
      else (k', v') # obj_set es k v)"

section \<open>The document (openapi-parser.ts)\<close>

text \<open>
  A schema node. The numeric bounds and \<^verbatim>\<open>additionalProperties\<close> of the interface,
  which the program only prints, are left out; the values of \<^verbatim>\<open>enum\<close> are strings.
\<close>

datatype Schema = Schema
  (schema_type: "string option")
  (schema_format: "string option")
  (schema_description: "string option")
  (schema_properties: "(string \<times> Schema) list option")
  (schema_items: "Schema option")
  (schema_required: "string list option")
  (schema_enum: "string list option")
  (schema_ref: "string option")
  (schema_pattern: "string option")

datatype ParamIn = InQuery | InPath | InHeader | InCookie

record Parameter =
  p_name :: string
  p_in :: ParamIn
  p_description :: "string option"
  p_required :: "bool option"
  p_schema :: Schema

text \<open>
  An object \<^verbatim>\<open>Record<string, T>\<close> read from the document is the list of its entries in
  the order in which the platform enumerates its keys (\<^verbatim>\<open>Object.entries\<close>,
  \<^verbatim>\<open>Object.keys\<close>); \<open>map_of\<close> is the lookup \<^verbatim>\<open>obj[key]\<close> of a key that is an own
  key or not the name of an inherited member. A media-type entry \<^verbatim>\<open>{ schema }\<close> is
  its schema.
\<close>

type_synonym Content = "(string \<times> Schema) list"

text \<open>A request body may lack its \<^verbatim>\<open>content\<close>.\<close>

record RequestBody =
  rb_description :: "string option"
  rb_required :: "bool option"
  rb_content :: "Content option"

record Response =
  r_description :: string
  r_content :: "Content option"

text \<open>An operation may lack its \<^verbatim>\<open>responses\<close>.\<close>

record Operation =
  op_operationId :: string
  op_summary :: "string option"
  op_description :: "string option"
  op_tags :: "string list option"
  op_parameters :: "Parameter list option"
  op_requestBody :: "RequestBody option"
  op_responses :: "(string \<times> Response) list option"

record PathItem =
  pi_get :: "Operation option"
  pi_post :: "Operation option"
  pi_put :: "Operation option"
  pi_delete :: "Operation option"
  pi_patch :: "Operation option"

record Info =
  info_title :: string
  info_description :: "string option"
  info_version :: "string option"

record Server =
  server_url :: string
  server_description :: string

text \<open>
  The interface \<^verbatim>\<open>OpenAPISpec\<close> declares every top-level field, but nothing checks
  the parsed file against it, so \<open>info\<close>, \<open>servers\<close>, \<open>paths\<close>, \<open>components\<close> and
  \<open>components.schemas\<close> may each be absent. The value under a path may be
  \<^verbatim>\<open>null\<close>, which is \<open>None\<close> here.
\<close>

record Components =
  schemas :: "(string \<times> Schema) list option"

record OpenAPISpec =
  openapi :: string
  info :: "Info option"
  servers :: "Server list option"
  paths :: "(string \<times> PathItem option) list option"
  components :: "Components option"

text \<open>The field \<^verbatim>\<open>method\<close> of an endpoint is \<open>httpMethod\<close> here.\<close>

record FortnoxEndpoint =
  path :: string
  httpMethod :: string
  operationId :: string
  summary :: "string option"
  description :: "string option"
  parameters :: "Parameter list"
  requestBodySchema :: "Schema option"
  responseSchema :: "Schema option"
  tags :: "string list option"

text \<open>Exceptions of the platform and of the program, as values.\<close>

datatype js_error =
    ReadError
  | SyntaxError
  | TypeError
  | Error string

text \<open>
  The outcome of \<^verbatim>\<open>readFileSync\<close> followed by \<^verbatim>\<open>JSON.parse\<close> on the file at
  \<^verbatim>\<open>specPath\<close>: the file cannot be read, its text is not JSON, or it parses to a
  document.
\<close>

datatype source = Unreadable | Unparseable | Parsed OpenAPISpec

definition OpenAPIParser :: "source \<Rightarrow> js_error + OpenAPISpec" where
  "OpenAPIParser src =
     (case src of
        Unreadable \<Rightarrow> Inl ReadError
      | Unparseable \<Rightarrow> Inl SyntaxError
      | Parsed spec \<Rightarrow> Inr spec)"


text \<open>
  The schema of the first media type of a content object:
  \<^verbatim>\<open>Object.keys(content)[0]\<close>, kept only when that key is truthy.
\<close>

definition firstSchema :: "Content \<Rightarrow> Schema option" where
  "firstSchema content =
     (case map fst content of
        [] \<Rightarrow> None
      | contentType # _ \<Rightarrow> if contentType \<noteq> [] then map_of content contentType else None)"

text \<open>
  \<^verbatim>\<open>Object.keys\<close> of an absent \<^verbatim>\<open>content\<close> and the property
  \<^verbatim>\<open>'200'\<close> of absent \<^verbatim>\<open>responses\<close> raise a TypeError.
\<close>

definition parseOperation ::
  "Platform \<Rightarrow> string \<Rightarrow> string \<Rightarrow> Operation \<Rightarrow> js_error + FortnoxEndpoint" where
  "parseOperation pf p m operation =
     (case (case op_requestBody operation of
              None \<Rightarrow> Inr None
            | Some rb \<Rightarrow>
                (case rb_content rb of
                   None \<Rightarrow> Inl TypeError
                 | Some content \<Rightarrow> Inr (firstSchema content))) of
        Inl e \<Rightarrow> Inl e
      | Inr requestSchema \<Rightarrow>
          (case op_responses operation of
             None \<Rightarrow> Inl TypeError
           | Some responses \<Rightarrow>
               (let successResponse =
                      (case map_of responses ''200'' of
                         Some r \<Rightarrow> Some r
                       | None \<Rightarrow> map_of responses ''201'')
                in Inr \<lparr> path = p,
                         httpMethod = toUpperCase pf m,
                         operationId = op_operationId operation,
                         summary = op_summary operation,
                         description = op_description operation,
                         parameters =
                           (case op_parameters operation of None \<Rightarrow> [] | Some ps \<Rightarrow> ps),
                         requestBodySchema = requestSchema,
                         responseSchema =
                           (case successResponse of
                              None \<Rightarrow> None
                            | Some r \<Rightarrow>
                                (case r_content r of
                                   None \<Rightarrow> None
                                 | Some c \<Rightarrow> firstSchema c)),
                         tags = op_tags operation \<rparr>)))"

text \<open>The five methods in the order of the array \<^verbatim>\<open>methods\<close>, each with its field.\<close>

definition methods :: "(string \<times> (PathItem \<Rightarrow> Operation option)) list" where
  "methods =
     [(''get'', pi_get), (''post'', pi_post), (''put'', pi_put),
      (''delete'', pi_delete), (''patch'', pi_patch)]"

text \<open>
  The results of the iterations of a loop that pushes to an array: the first exception
  ends the loop.
\<close>

fun collect :: "(js_error + 'a) list \<Rightarrow> js_error + 'a list" where
  "collect [] = Inr []"
| "collect (r # rs) =
     (case r of
        Inl e \<Rightarrow> Inl e
      | Inr x \<Rightarrow> (case collect rs of Inl e \<Rightarrow> Inl e | Inr xs \<Rightarrow> Inr (x # xs)))"

text \<open>The inner loop; a property of a path item that is \<^verbatim>\<open>null\<close> raises a TypeError.\<close>

definition pathEndpoints ::
  "Platform \<Rightarrow> string \<times> PathItem option \<Rightarrow> js_error + FortnoxEndpoint list" where
  "pathEndpoints pf entry =
     (case snd entry of
        None \<Rightarrow> Inl TypeError
      | Some pathItem \<Rightarrow>
          collect (concat (map (\<lambda>(m, field).
            case field pathItem of
              None \<Rightarrow> []
            | Some operation \<Rightarrow> [parseOperation pf (fst entry) m operation]) methods)))"

text \<open>\<^verbatim>\<open>Object.entries\<close> of an absent \<open>paths\<close> raises a TypeError.\<close>

definition getAllEndpoints :: "Platform \<Rightarrow> OpenAPISpec \<Rightarrow> js_error + FortnoxEndpoint list" where
  "getAllEndpoints pf spec =
     (case paths spec of
        None \<Rightarrow> Inl TypeError
      | Some ps \<Rightarrow>
          (case collect (map (pathEndpoints pf) ps) of
             Inl e \<Rightarrow> Inl e
           | Inr found \<Rightarrow> Inr (concat found)))"

text \<open>
  \<^verbatim>\<open>this.spec.components?.schemas?.[schemaName]\<close> reads a property under a name
  taken from the reference.
\<close>

definition resolveSchemaRef :: "OpenAPISpec \<Rightarrow> string \<Rightarrow> Schema property" where
  "resolveSchemaRef spec r =
     (if \<not> startsWith r ''#/components/schemas/'' then Undefined
      else
        let schemaName = replace r ''#/components/schemas/'' '''' in
        case components spec of
          None \<Rightarrow> Undefined
        | Some c \<Rightarrow>
            (case schemas c of None \<Rightarrow> Undefined | Some ss \<Rightarrow> getProperty ss schemaName))"

text \<open>
  \<^verbatim>\<open>resolved?.description\<close>: an inherited member has no property
  \<^verbatim>\<open>description\<close>.
\<close>

definition getSchemaDescription :: "OpenAPISpec \<Rightarrow> Schema \<Rightarrow> string" where
  "getSchemaDescription spec schema =
     (if truthy (schema_ref schema) then
        or_default
          (case resolveSchemaRef spec (str (schema_ref schema)) of
             Undefined \<Rightarrow> None
           | Own resolved \<Rightarrow> schema_description resolved
           | Inherited member \<Rightarrow> None)
          ''Schema reference''
      else if truthy (schema_description schema) then str (schema_description schema)
      else
        (case (if schema_type schema = Some ''object'' then schema_properties schema
               else None) of
           Some props \<Rightarrow>
             ''Object with properties: '' @ join '', '' (take 3 (map fst props)) @
             (if length props > 3 then ''...'' else [])
         | None \<Rightarrow>
             (case (if schema_type schema = Some ''array'' then schema_items schema
                    else None) of
                Some items \<Rightarrow> ''Array of '' @ or_default (schema_type items) ''items''
              | None \<Rightarrow> or_default (schema_type schema) ''unknown'')))"

section \<open>The query engine (class FortnoxMCPServer)\<close>

text \<open>
  The server holds the parsed document and the endpoint list, both built once by its
  constructor; a raised exception aborts the start.
\<close>

record ServerState =
  parser :: OpenAPISpec
  endpoints :: "FortnoxEndpoint list"

definition FortnoxMCPServer :: "Platform \<Rightarrow> source \<Rightarrow> js_error + ServerState" where
  "FortnoxMCPServer pf src =
     (case OpenAPIParser src of
        Inl e \<Rightarrow> Inl e
      | Inr spec \<Rightarrow>
          (case getAllEndpoints pf spec of
             Inl e \<Rightarrow> Inl e
           | Inr eps \<Rightarrow> Inr \<lparr> parser = spec, endpoints = eps \<rparr>))"

text \<open>
  A tool returns a text. The model returns the values that the text prints
  (\<open>Content\<close>), or the message of a result marked \<^verbatim>\<open>isError: true\<close>.
\<close>

datatype 'a tool_result = Content 'a | IsError string

subsection \<open>Objects used as counters\<close>

text \<open>
  What a counter holds under a key: a number, or, after the inherited member \<open>m\<close> has
  been read as the old count, the text of that member followed by \<open>n\<close> digits
  \<^verbatim>\<open>1\<close> (adding 1 to a function or to a string appends the digit).
\<close>

datatype counter = Number nat | Junk string nat

text \<open>
  \<^verbatim>\<open>counts[k] = (counts[k] || 0) + 1\<close>. Under the key \<^verbatim>\<open>__proto__\<close> the old
  count read is \<^verbatim>\<open>Object.prototype\<close> and the assignment of the resulting text is
  ignored by the setter; under the name of an inherited function the old count read is
  the function, and the assignment creates an own entry.
\<close>

definition increment :: "(string \<times> counter) list \<Rightarrow> string \<Rightarrow> (string \<times> counter) list" where
  "increment counts k =
     (case getProperty counts k of
        Own (Number n) \<Rightarrow> obj_set counts k (Number (n + 1))
      | Own (Junk m n) \<Rightarrow> obj_set counts k (Junk m (n + 1))
      | Inherited m \<Rightarrow> if m = ''__proto__'' then counts else obj_set counts k (Junk m 1)
      | Undefined \<Rightarrow> obj_set counts k (Number 1))"


definition countTags :: "FortnoxEndpoint list \<Rightarrow> (string \<times> counter) list" where
  "countTags eps =
     foldl (\<lambda>tagCounts e.
       case tags e of
         None \<Rightarrow> tagCounts
       | Some ts \<Rightarrow> foldl increment tagCounts ts) [] eps"

text \<open>
  The comparator \<^verbatim>\<open>(a, b) => b[1] - a[1]\<close>: the difference is \<^verbatim>\<open>NaN\<close> when
  one of the two is a text.
\<close>

definition byCountDesc :: "string \<times> counter \<Rightarrow> string \<times> counter \<Rightarrow> int option" where
  "byCountDesc a b =
     (case (snd a, snd b) of
        (Number x, Number y) \<Rightarrow> Some (int y - int x)
      | _ \<Rightarrow> None)"

subsection \<open>getAPIOverview\<close>



subsection \<open>listAllEndpoints\<close>

record ListArgs =
  arg_method :: "string option"
  arg_tag :: "string option"
  arg_limit :: "int option"

record EndpointSummary =
  es_method :: string
  es_path :: string
  es_operationId :: string
  es_summary :: string
  es_tags :: "string list"

record Listing =
  totalFound :: nat
  showing :: nat
  result :: "EndpointSummary list"

definition summarize :: "FortnoxEndpoint \<Rightarrow> EndpointSummary" where
  "summarize endpoint =
     \<lparr> es_method = httpMethod endpoint,
       es_path = path endpoint,
       es_operationId = operationId endpoint,
       es_summary = or_default (summary endpoint) ''No summary'',
       es_tags = (case tags endpoint of None \<Rightarrow> [] | Some ts \<Rightarrow> ts) \<rparr>"

definition listAllEndpoints :: "Platform \<Rightarrow> ServerState \<Rightarrow> ListArgs \<Rightarrow> Listing" where
  "listAllEndpoints pf srv args =
     (let byMethod =
            (case arg_method args of
               None \<Rightarrow> endpoints srv
             | Some m \<Rightarrow>
                 if m = [] then endpoints srv
                 else filter (\<lambda>e. toUpperCase pf (httpMethod e) = toUpperCase pf m)
                        (endpoints srv));
          filteredEndpoints =
            (case arg_tag args of
               None \<Rightarrow> byMethod
             | Some t \<Rightarrow>
                 if t = [] then byMethod
                 else filter (\<lambda>e. case tags e of None \<Rightarrow> False | Some ts \<Rightarrow> t \<in> set ts)
                        byMethod);
          limit =
            (case arg_limit args of
               None \<Rightarrow> int (length filteredEndpoints)
             | Some n \<Rightarrow> if n = 0 then int (length filteredEndpoints) else n);
          limitedEndpoints = slice0 filteredEndpoints limit
      in \<lparr> totalFound = length filteredEndpoints,
            showing = length limitedEndpoints,
            result = map summarize limitedEndpoints \<rparr>)"

subsection \<open>getEndpointDetails\<close>

record EndpointDetails =
  d_endpoint :: FortnoxEndpoint
  d_pathParams :: "Parameter list"
  d_queryParams :: "Parameter list"
  d_requiredParams :: "Parameter list"
  d_optionalParams :: "Parameter list"

definition newline :: char where
  "newline = CHR 0x0A"

text \<open>The text of the answer for a key that no endpoint has.\<close>

definition endpointNotFound :: "string \<Rightarrow> string \<Rightarrow> string" where
  "endpointNotFound m p =
     ''Endpoint not found: '' @ m @ '' '' @ p @ [newline, newline] @
     ''Tip: Use search_endpoints or list_all_endpoints to find the correct path.''"

text \<open>The arguments \<^verbatim>\<open>args.path\<close> and \<^verbatim>\<open>args.method\<close> are strings.\<close>

definition getEndpointDetails ::
  "Platform \<Rightarrow> ServerState \<Rightarrow> string \<Rightarrow> string \<Rightarrow> EndpointDetails tool_result" where
  "getEndpointDetails pf srv p m =
     (let m' = toUpperCase pf m in
      case find (\<lambda>e. path e = p \<and> httpMethod e = m') (endpoints srv) of
        None \<Rightarrow> IsError (endpointNotFound m' p)
      | Some endpoint \<Rightarrow>
          Content
            \<lparr> d_endpoint = endpoint,
              d_pathParams = filter (\<lambda>p. p_in p = InPath) (parameters endpoint),
              d_queryParams = filter (\<lambda>p. p_in p = InQuery) (parameters endpoint),
              d_requiredParams = filter (\<lambda>p. p_required p = Some True) (parameters endpoint),
              d_optionalParams =
                filter (\<lambda>p. p_required p \<noteq> Some True) (parameters endpoint) \<rparr>)"

subsection \<open>getEndpointsByResource\<close>

record Grouped =
  g_total :: nat
  g_list :: "FortnoxEndpoint list"
  g_get :: "FortnoxEndpoint list"
  g_create :: "FortnoxEndpoint list"
  g_update :: "FortnoxEndpoint list"
  g_delete :: "FortnoxEndpoint list"

text \<open>The test of one tag against the resource name.\<close>

definition tagMatches :: "Platform \<Rightarrow> string \<Rightarrow> string \<Rightarrow> bool" where
  "tagMatches pf resource tag =
     (str_includes (toLowerCase pf tag) (toLowerCase pf resource) \<or>
      str_includes (toLowerCase pf resource) (replace (toLowerCase pf tag) ''fortnox_'' []))"

definition matchingEndpoints :: "Platform \<Rightarrow> ServerState \<Rightarrow> string \<Rightarrow> FortnoxEndpoint list" where
  "matchingEndpoints pf srv resource =
     filter (\<lambda>e. case tags e of None \<Rightarrow> False | Some ts \<Rightarrow> list_ex (tagMatches pf resource) ts)
       (endpoints srv)"

text \<open>The text of the answer for a resource without endpoints.\<close>

definition resourceNotFound :: "string \<Rightarrow> string" where
  "resourceNotFound resource =
     ''No endpoints found for resource: '' @ resource @ [newline, newline] @
     ''Tip: Use list_resource_groups to see all available resources.''"

definition getEndpointsByResource ::
  "Platform \<Rightarrow> ServerState \<Rightarrow> string \<Rightarrow> Grouped tool_result" where
  "getEndpointsByResource pf srv resource =
     (let matching = matchingEndpoints pf srv resource in
      if length matching = 0 then IsError (resourceNotFound resource)
      else
        Content
          \<lparr> g_total = length matching,
            g_list =
              filter (\<lambda>e. httpMethod e = ''GET'' \<and> \<not> str_includes (path e) ''{'') matching,
            g_get = filter (\<lambda>e. httpMethod e = ''GET'' \<and> str_includes (path e) ''{'') matching,
            g_create = filter (\<lambda>e. httpMethod e = ''POST'') matching,
            g_update =
              filter (\<lambda>e. httpMethod e = ''PUT'' \<or> httpMethod e = ''PATCH'') matching,
            g_delete = filter (\<lambda>e. httpMethod e = ''DELETE'') matching \<rparr>)"

subsection \<open>searchEndpoints\<close>

record SearchResult =
  sr_keyword :: string
  sr_totalMatches :: nat
  sr_shown :: "FortnoxEndpoint list"

text \<open>\<^verbatim>\<open>field?.toLowerCase().includes(keyword)\<close> for an optional field.\<close>

definition fieldMatch :: "Platform \<Rightarrow> string option \<Rightarrow> string \<Rightarrow> bool" where
  "fieldMatch pf field keyword =
     (case field of None \<Rightarrow> False | Some s \<Rightarrow> str_includes (toLowerCase pf s) keyword)"

definition searchMatch :: "Platform \<Rightarrow> string \<Rightarrow> FortnoxEndpoint \<Rightarrow> bool" where
  "searchMatch pf keyword endpoint =
     (let pathMatch = str_includes (toLowerCase pf (path endpoint)) keyword;
          summaryMatch = fieldMatch pf (summary endpoint) keyword;
          descMatch = fieldMatch pf (description endpoint) keyword;
          tagMatch =
            (case tags endpoint of
               None \<Rightarrow> False
             | Some ts \<Rightarrow> list_ex (\<lambda>t. str_includes (toLowerCase pf t) keyword) ts);
          operationMatch = str_includes (toLowerCase pf (operationId endpoint)) keyword
      in pathMatch \<or> summaryMatch \<or> descMatch \<or> tagMatch \<or> operationMatch)"

definition searchEndpoints ::
  "Platform \<Rightarrow> ServerState \<Rightarrow> string \<Rightarrow> int option \<Rightarrow> SearchResult" where
  "searchEndpoints pf srv kw lim =
     (let keyword = toLowerCase pf kw;
          limit = (case lim of None \<Rightarrow> 20 | Some n \<Rightarrow> if n = 0 then 20 else n);
          results = filter (searchMatch pf keyword) (endpoints srv);
          limitedResults = slice0 results limit
      in \<lparr> sr_keyword = keyword,
            sr_totalMatches = length results,
            sr_shown = limitedResults \<rparr>)"

subsection \<open>listResourceGroups\<close>

text \<open>
  The number of groups is the length of the sorted array, which is the number of
  entries of the counter in any order; the two lists are \<open>None\<close> when the platform is
  free in the order of a sort.
\<close>

record ResourceGroups =
  rg_total :: nat
  rg_categories :: "(string \<times> (string \<times> counter) list) list option"
  rg_all :: "(string \<times> counter) list option"

definition categoryOf :: "string \<Rightarrow> string" where
  "categoryOf tag =
     (if list_ex (str_includes tag)
           [''Customers'', ''Suppliers'', ''Employees'', ''Articles'', ''Products'']
      then ''Core Business''
      else if list_ex (str_includes tag)
           [''Invoice'', ''Payment'', ''Account'', ''Currency'', ''Financial'']
      then ''Financial''
      else if list_ex (str_includes tag) [''Order'', ''Offer'', ''Contract'', ''Voucher'']
      then ''Documents''
      else if list_ex (str_includes tag) [''Settings'', ''Mode'', ''Price'', ''Label'', ''Unit'']
      then ''Configuration''
      else ''Other'')"

text \<open>
  An entry \<^verbatim>\<open>`${cleanTag} (${count} endpoints)`\<close> is the pair of the name and the
  count.
\<close>

definition listResourceGroups :: "Platform \<Rightarrow> ServerState \<Rightarrow> ResourceGroups" where
  "listResourceGroups pf srv =
     (let tagCounts = countTags (endpoints srv);
          sorted = arraySort byCountDesc tagCounts;
          entries =
            map_option
              (map (\<lambda>(tag, count). (categoryOf tag, (replace tag ''fortnox_'' [], count))))
              sorted;
          categories =
            map_option (\<lambda>es.
              map (\<lambda>category. (category, map snd (filter (\<lambda>(c, entry). c = category) es)))
                [''Core Business'', ''Financial'', ''Documents'', ''Configuration'', ''Other''])
              entries;
          alphabetically =
            (case sorted of
               None \<Rightarrow> None
             | Some byCount \<Rightarrow>
                 arraySort (\<lambda>a b. Some (localeCompare pf (fst a) (fst b))) byCount)
      in \<lparr> rg_total = length tagCounts,
            rg_categories =
              map_option (filter (\<lambda>(category, items). length items > 0)) categories,
            rg_all =
              map_option (map (\<lambda>(tag, count). (replace tag ''fortnox_'' [], count)))
                alphabetically \<rparr>)"

section \<open>The specification's words\<close>

subsection \<open>The traversal order\<close>

text \<open>
  Paths in the document's key order and, within a path, the methods GET, POST, PUT,
  DELETE, PATCH in this order, one entry per operation that is present.
\<close>

definition operationFor :: "PathItem \<Rightarrow> string \<Rightarrow> Operation option" where
  "operationFor item M =
     (if M = ''GET'' then pi_get item
      else if M = ''POST'' then pi_post item
      else if M = ''PUT'' then pi_put item
      else if M = ''DELETE'' then pi_delete item
      else if M = ''PATCH'' then pi_patch item
      else None)"

definition canonicalOrder ::
  "(string \<times> PathItem option) list \<Rightarrow> (string \<times> string \<times> Operation) list" where
  "canonicalOrder ps =
     concat (map (\<lambda>(p, entry).
       case entry of
         None \<Rightarrow> []
       | Some item \<Rightarrow>
           concat (map (\<lambda>M. case operationFor item M of
                                None \<Rightarrow> []
                              | Some operation \<Rightarrow> [(p, M, operation)])
                     [''GET'', ''POST'', ''PUT'', ''DELETE'', ''PATCH''])) ps)"

text \<open>A listing without arguments.\<close>

definition noFilters :: ListArgs where
  "noFilters = \<lparr> arg_method = None, arg_tag = None, arg_limit = None \<rparr>"

subsection \<open>Documents that can be indexed\<close>

text \<open>
  An operation that cannot be flattened: it has no \<^verbatim>\<open>responses\<close>, or it has a
  request body without \<^verbatim>\<open>content\<close>.
\<close>

definition illFormed :: "Operation \<Rightarrow> bool" where
  "illFormed operation =
     (op_responses operation = None \<or>
      (case op_requestBody operation of None \<Rightarrow> False | Some rb \<Rightarrow> rb_content rb = None))"

text \<open>The operations that a path item has.\<close>

definition operationsOf :: "PathItem \<Rightarrow> Operation list" where
  "operationsOf item =
     concat (map (\<lambda>field. case field item of None \<Rightarrow> [] | Some operation \<Rightarrow> [operation])
       [pi_get, pi_post, pi_put, pi_delete, pi_patch])"

text \<open>
  A document can be indexed when it has \<open>paths\<close>, no path item is \<^verbatim>\<open>null\<close> and
  every operation can be flattened.
\<close>

definition indexable :: "OpenAPISpec \<Rightarrow> bool" where
  "indexable spec =
     (case paths spec of
        None \<Rightarrow> False
      | Some ps \<Rightarrow>
          list_all (\<lambda>(p, entry).
            case entry of
              None \<Rightarrow> False
            | Some item \<Rightarrow> list_all (\<lambda>operation. \<not> illFormed operation) (operationsOf item)) ps)"

subsection \<open>The key of an endpoint\<close>

text \<open>The key of a lookup: the path as given, the method in upper case.\<close>

definition hasKey :: "Platform \<Rightarrow> string \<Rightarrow> string \<Rightarrow> FortnoxEndpoint \<Rightarrow> bool" where
  "hasKey pf p m e = (path e = p \<and> httpMethod e = toUpperCase pf m)"

subsection \<open>The filters of a listing\<close>

text \<open>Two strings are equal without regard to case.\<close>

definition sameIgnoringCase :: "Platform \<Rightarrow> string \<Rightarrow> string \<Rightarrow> bool" where
  "sameIgnoringCase pf a b = (toLowerCase pf a = toLowerCase pf b)"

text \<open>
  An endpoint passes when its method equals the method filter without regard to case
  (if one is given) and its tag list has the tag filter as a member (if one is given).
\<close>

definition matchesFilters ::
  "Platform \<Rightarrow> string option \<Rightarrow> string option \<Rightarrow> FortnoxEndpoint \<Rightarrow> bool" where
  "matchesFilters pf methodFilter tagFilter e =
     ((case methodFilter of
         None \<Rightarrow> True
       | Some m \<Rightarrow> sameIgnoringCase pf (httpMethod e) m) \<and>
      (case tagFilter of
         None \<Rightarrow> True
       | Some t \<Rightarrow> (case tags e of None \<Rightarrow> False | Some ts \<Rightarrow> t \<in> set ts)))"

text \<open>
  Listing as specified: the endpoints that pass, in index order, cut to the first
  \<open>limit\<close> of them when a limit is given; the total is counted before the cut.
\<close>

definition listAll_spec :: "Platform \<Rightarrow> FortnoxEndpoint list \<Rightarrow> ListArgs \<Rightarrow> Listing" where
  "listAll_spec pf eps args =
     (let filtered = filter (matchesFilters pf (arg_method args) (arg_tag args)) eps;
          shown = (case arg_limit args of None \<Rightarrow> filtered | Some n \<Rightarrow> take (nat n) filtered)
      in \<lparr> totalFound = length filtered, showing = length shown,
            result = map summarize shown \<rparr>)"

subsection \<open>The search\<close>

text \<open>
  The keyword occurs in a string without regard to case: the string in lower case
  contains the keyword in lower case.
\<close>

definition occursIgnoringCase :: "Platform \<Rightarrow> string \<Rightarrow> string \<Rightarrow> bool" where
  "occursIgnoringCase pf k s = str_includes (toLowerCase pf s) (toLowerCase pf k)"

text \<open>
  The keyword occurs in the path, the summary, the description, the operation id or a
  tag.
\<close>

definition keywordOccurs :: "Platform \<Rightarrow> string \<Rightarrow> FortnoxEndpoint \<Rightarrow> bool" where
  "keywordOccurs pf k e =
     (occursIgnoringCase pf k (path e)
      \<or> (case summary e of None \<Rightarrow> False | Some s \<Rightarrow> occursIgnoringCase pf k s)
      \<or> (case description e of None \<Rightarrow> False | Some d \<Rightarrow> occursIgnoringCase pf k d)
      \<or> occursIgnoringCase pf k (operationId e)
      \<or> (case tags e of None \<Rightarrow> False | Some ts \<Rightarrow> list_ex (occursIgnoringCase pf k) ts))"

text \<open>
  The list returned as specified: the first \<open>limit\<close> matches, 20 when no limit is
  given.
\<close>

definition search_spec ::
  "Platform \<Rightarrow> FortnoxEndpoint list \<Rightarrow> string \<Rightarrow> int option \<Rightarrow> FortnoxEndpoint list" where
  "search_spec pf eps k lim =
     take (nat (case lim of None \<Rightarrow> 20 | Some n \<Rightarrow> n)) (filter (keywordOccurs pf k) eps)"

subsection \<open>The resource match\<close>

text \<open>The vendor prefix, taken off a string that starts with it.\<close>

definition stripVendorPrefix :: "string \<Rightarrow> string" where
  "stripVendorPrefix s = (if prefix ''fortnox_'' s then drop (length ''fortnox_'') s else s)"

text \<open>
  The tag in lower case contains the resource name in lower case, or the resource name
  in lower case contains the tag in lower case with the vendor prefix stripped.
\<close>

definition resourceMatches_spec :: "Platform \<Rightarrow> string \<Rightarrow> string \<Rightarrow> bool" where
  "resourceMatches_spec pf r t =
     (str_includes (toLowerCase pf t) (toLowerCase pf r) \<or>
      str_includes (toLowerCase pf r) (stripVendorPrefix (toLowerCase pf t)))"

subsection \<open>The schemas of an endpoint\<close>




subsection \<open>Schema references\<close>

text \<open>The schema registered under a name, if any.\<close>

definition lookupSchema :: "OpenAPISpec \<Rightarrow> string \<Rightarrow> Schema option" where
  "lookupSchema spec name =
     (case components spec of
        None \<Rightarrow> None
      | Some c \<Rightarrow> (case schemas c of None \<Rightarrow> None | Some ss \<Rightarrow> map_of ss name))"

text \<open>The same schema node without its reference.\<close>

definition withoutRef :: "Schema \<Rightarrow> Schema" where
  "withoutRef schema =
     Schema (schema_type schema) (schema_format schema) (schema_description schema)
       (schema_properties schema) (schema_items schema) (schema_required schema)
       (schema_enum schema) None (schema_pattern schema)"

subsection \<open>Counting\<close>







subsection \<open>Auxiliary notions\<close>




section \<open>Example documents\<close>

text \<open>
  A platform for the examples. Their strings are ASCII, so its case mappings of other
  strings play no role; its comparison is the dictionary order of the lower-case
  forms, which orders two words of ASCII letters whose first letters differ as
  \<^verbatim>\<open>localeCompare\<close> does.
\<close>

definition alphaCompare :: "string \<Rightarrow> string \<Rightarrow> int" where
  "alphaCompare a b =
     (if map toLowerChar a < map toLowerChar b then - 1
      else if map toLowerChar a = map toLowerChar b then 0
      else 1)"

definition examplePlatform :: Platform where
  "examplePlatform =
     \<lparr> lowerCaseOf = map toLowerChar, upperCaseOf = map toUpperChar,
       localeCompare = alphaCompare \<rparr>"

text \<open>A schema without any field, a reference, and an object schema with a description.\<close>

definition emptySchema :: Schema where
  "emptySchema = Schema None None None None None None None None None"

definition refSchema :: "string \<Rightarrow> Schema" where
  "refSchema r = Schema None None None None None None None (Some r) None"

definition describedSchema :: "string \<Rightarrow> Schema" where
  "describedSchema d = Schema (Some ''object'') None (Some d) None None None None None None"

text \<open>
  A path item without operations, and an operation with an id, tags and an empty
  \<^verbatim>\<open>responses\<close> object.
\<close>

definition noOperations :: PathItem where
  "noOperations =
     \<lparr> pi_get = None, pi_post = None, pi_put = None, pi_delete = None, pi_patch = None \<rparr>"

definition anOperation :: "string \<Rightarrow> string list option \<Rightarrow> Operation" where
  "anOperation opId ts =
     \<lparr> op_operationId = opId, op_summary = None, op_description = None, op_tags = ts,
       op_parameters = None, op_requestBody = None, op_responses = Some [] \<rparr>"




text \<open>An operation without \<^verbatim>\<open>responses\<close>, and one whose request body has no content.\<close>

definition withoutResponses :: Operation where
  "withoutResponses = (anOperation ''broken'' None) \<lparr> op_responses := None \<rparr>"

definition withoutContent :: Operation where
  "withoutContent =
     (anOperation ''broken'' None)
       \<lparr> op_requestBody :=
           Some \<lparr> rb_description = None, rb_required = None, rb_content = None \<rparr> \<rparr>"

text \<open>A complete document with the given paths, and an endpoint without schemas.\<close>

definition aDocument :: "(string \<times> PathItem option) list \<Rightarrow> OpenAPISpec" where
  "aDocument ps =
     \<lparr> openapi = ''3.0.0'',
       info = Some \<lparr> info_title = ''Fortnox API'', info_description = None,
                     info_version = Some ''1.0'' \<rparr>,
       servers = Some [\<lparr> server_url = ''https://api.fortnox.se'', server_description = [] \<rparr>],
       paths = Some ps,
       components = Some \<lparr> schemas = Some [] \<rparr> \<rparr>"

definition anEndpoint ::
  "string \<Rightarrow> string \<Rightarrow> string \<Rightarrow> string list option \<Rightarrow> FortnoxEndpoint" where
  "anEndpoint p m opId ts =
     \<lparr> path = p, httpMethod = m, operationId = opId, summary = None, description = None,
       parameters = [], requestBodySchema = None, responseSchema = None, tags = ts \<rparr>"

text \<open>One path \<^verbatim>\<open>/3/customers\<close> with a POST and a GET operation.\<close>

definition customersPaths :: "(string \<times> PathItem option) list" where
  "customersPaths =
     [(''/3/customers'',
       Some (noOperations
         \<lparr> pi_post := Some (anOperation ''create'' None),
           pi_get := Some (anOperation ''list'' (Some [''fortnox_Customers''])) \<rparr>))]"

definition customersServer :: ServerState where
  "customersServer =
     \<lparr> parser = aDocument customersPaths,
       endpoints =
         [anEndpoint ''/3/customers'' ''GET'' ''list'' (Some [''fortnox_Customers'']),
          anEndpoint ''/3/customers'' ''POST'' ''create'' None] \<rparr>"

text \<open>The customers document without \<open>info\<close>, \<open>servers\<close> and \<open>components\<close>.\<close>

definition incompleteSpec :: OpenAPISpec where
  "incompleteSpec =
     (aDocument customersPaths) \<lparr> info := None, servers := None, components := None \<rparr>"

definition incompleteServer :: ServerState where
  "incompleteServer = \<lparr> parser = incompleteSpec, endpoints = endpoints customersServer \<rparr>"

text \<open>
  A document without \<open>paths\<close>, one with a path that is \<^verbatim>\<open>null\<close>, and two with an
  operation that cannot be flattened after one that can.
\<close>

definition noPathsSpec :: OpenAPISpec where
  "noPathsSpec = (aDocument []) \<lparr> paths := None \<rparr>"

definition nullPathSpec :: OpenAPISpec where
  "nullPathSpec = aDocument (customersPaths @ [(''/3/orders'', None)])"

definition noResponsesSpec :: OpenAPISpec where
  "noResponsesSpec =
     aDocument
       (customersPaths @
        [(''/3/orders'', Some (noOperations \<lparr> pi_put := Some withoutResponses \<rparr>))])"

definition noContentSpec :: OpenAPISpec where
  "noContentSpec =
     aDocument
       (customersPaths @
        [(''/3/orders'', Some (noOperations \<lparr> pi_post := Some withoutContent \<rparr>))])"



text \<open>A document with a described schema and a schema that only refers to it.\<close>

definition schemasSpec :: OpenAPISpec where
  "schemasSpec =
     (aDocument [])
       \<lparr> components := Some \<lparr> schemas = Some
           [(''Customer'', describedSchema ''A customer''),
            (''Alias'', refSchema ''#/components/schemas/Customer'')] \<rparr> \<rparr>"

text \<open>One GET endpoint whose tag has the vendor prefix in its middle.\<close>

definition salesPaths :: "(string \<times> PathItem option) list" where
  "salesPaths =
     [(''/3/sales'',
       Some (noOperations
         \<lparr> pi_get := Some (anOperation ''sales'' (Some [''Prefortnox_Sales''])) \<rparr>))]"

definition salesServer :: ServerState where
  "salesServer =
     \<lparr> parser = aDocument salesPaths,
       endpoints = [anEndpoint ''/3/sales'' ''GET'' ''sales'' (Some [''Prefortnox_Sales''])] \<rparr>"








text \<open>Two endpoints, one tagged with the vendor prefix and one without.\<close>

definition mixedPaths :: "(string \<times> PathItem option) list" where
  "mixedPaths =
     [(''/3/zebras'',
       Some (noOperations
         \<lparr> pi_get := Some (anOperation ''zebras'' (Some [''fortnox_Zebra''])) \<rparr>)),
      (''/3/orders'',
       Some (noOperations \<lparr> pi_get := Some (anOperation ''orders'' (Some [''Orders''])) \<rparr>))]"

definition mixedServer :: ServerState where
  "mixedServer =
     \<lparr> parser = aDocument mixedPaths,
       endpoints =
         [anEndpoint ''/3/zebras'' ''GET'' ''zebras'' (Some [''fortnox_Zebra'']),
          anEndpoint ''/3/orders'' ''GET'' ''orders'' (Some [''Orders''])] \<rparr>"

text \<open>A listing with a limit only.\<close>

definition limitOnly :: "int \<Rightarrow> ListArgs" where
  "limitOnly n = \<lparr> arg_method = None, arg_tag = None, arg_limit = Some n \<rparr>"

section \<open>Properties\<close>

subsection \<open>The string functions\<close>

lemmas case_defs =
  toUpperCase_def toLowerCase_def toUpperChar_def toLowerChar_def lowerLetters_def
  upperLetters_def isAscii_def

lemma toUpperCase_methods:
  "toUpperCase pf ''get'' = ''GET''" "toUpperCase pf ''post'' = ''POST''"
  "toUpperCase pf ''put'' = ''PUT''" "toUpperCase pf ''delete'' = ''DELETE''"
  "toUpperCase pf ''patch'' = ''PATCH''" "toUpperCase pf ''GET'' = ''GET''"
  "toUpperCase pf ''POST'' = ''POST''" "toUpperCase pf ''PUT'' = ''PUT''"
  "toUpperCase pf ''DELETE'' = ''DELETE''" "toUpperCase pf ''PATCH'' = ''PATCH''"
  by (simp_all add: case_defs)

subsection \<open>The endpoint index\<close>

lemma collect_map_Inr: "collect (map Inr xs) = Inr xs"
  by (induction xs) simp_all

lemma collect_Inr: "collect rs = Inr xs \<longleftrightarrow> rs = map Inr xs"
proof
  show "collect rs = Inr xs \<Longrightarrow> rs = map Inr xs"
    by (induction rs arbitrary: xs) (auto split: sum.splits)
  show "rs = map Inr xs \<Longrightarrow> collect rs = Inr xs"
    by (simp add: collect_map_Inr)
qed

lemma collect_isl: "isl (collect rs) \<longleftrightarrow> list_ex isl rs"
  by (induction rs) (auto split: sum.splits)

lemma parseOperation_fails: "isl (parseOperation pf p m operation) \<longleftrightarrow> illFormed operation"
  by (auto simp: parseOperation_def illFormed_def Let_def split: option.splits)

lemma parseOperation_key:
  "parseOperation pf p m operation = Inr e \<Longrightarrow>
     path e = p \<and> httpMethod e = toUpperCase pf m \<and> tags e = op_tags operation"
  by (auto simp: parseOperation_def Let_def split: option.splits)

lemma parseOperation_upper:
  "toUpperCase pf m = toUpperCase pf m' \<Longrightarrow>
     parseOperation pf p m operation = parseOperation pf p m' operation"
  by (simp add: parseOperation_def Let_def split: option.splits sum.splits)

lemma parseOperation_methods:
  "parseOperation pf p ''get'' operation = parseOperation pf p ''GET'' operation"
  "parseOperation pf p ''post'' operation = parseOperation pf p ''POST'' operation"
  "parseOperation pf p ''put'' operation = parseOperation pf p ''PUT'' operation"
  "parseOperation pf p ''delete'' operation = parseOperation pf p ''DELETE'' operation"
  "parseOperation pf p ''patch'' operation = parseOperation pf p ''PATCH'' operation"
  by (rule parseOperation_upper, simp add: toUpperCase_methods)+

lemma path_operations:
  "concat (map (\<lambda>(m, field).
       case field item of
         None \<Rightarrow> []
       | Some operation \<Rightarrow> [parseOperation pf p m operation]) methods) =
   map (\<lambda>(p, M, operation). parseOperation pf p M operation) (canonicalOrder [(p, Some item)])"
  by (simp add: methods_def canonicalOrder_def operationFor_def parseOperation_methods
        split: option.splits)

lemma pathEndpoints_canonical:
  "pathEndpoints pf (p, Some item) =
     collect (map (\<lambda>(p, M, operation). parseOperation pf p M operation)
       (canonicalOrder [(p, Some item)]))"
  by (simp add: pathEndpoints_def path_operations)

lemma canonicalOrder_Cons:
  "canonicalOrder (e # ps) = canonicalOrder [e] @ canonicalOrder ps"
  by (simp add: canonicalOrder_def)

lemma endpoints_canonical:
  "map (pathEndpoints pf) ps = map Inr found \<Longrightarrow>
     map Inr (concat found) =
       map (\<lambda>(p, M, operation). parseOperation pf p M operation) (canonicalOrder ps)
     \<and> list_all (\<lambda>(p, entry). entry \<noteq> None) ps"
proof (induction ps arbitrary: found)
  case Nil
  then show ?case by (simp add: canonicalOrder_def)
next
  case (Cons e ps)
  from Cons.prems obtain f found' where found: "found = f # found'"
    and f: "pathEndpoints pf e = Inr f"
    and rest: "map (pathEndpoints pf) ps = map Inr found'"
    by (cases found) auto
  obtain p entry where e: "e = (p, entry)" by (cases e)
  from f e obtain item where item: "entry = Some item"
    by (cases entry) (auto simp: pathEndpoints_def)
  from f have "map Inr f =
      map (\<lambda>(p, M, operation). parseOperation pf p M operation)
        (canonicalOrder [(p, Some item)])"
    by (simp add: e item pathEndpoints_canonical collect_Inr)
  with Cons.IH [OF rest] show ?case
    by (simp add: found e item canonicalOrder_Cons [of "(p, Some item)" ps])
qed

lemma canonicalOrder_method:
  "(p, M, operation) \<in> set (canonicalOrder ps) \<Longrightarrow>
     M \<in> {''GET'', ''POST'', ''PUT'', ''DELETE'', ''PATCH''} \<and> toUpperCase pf M = M"
  by (auto simp: canonicalOrder_def toUpperCase_methods split: option.splits if_splits)

lemma key_canonical:
  "map Inr eps = map (\<lambda>(p, M, operation). parseOperation pf p M operation) co \<Longrightarrow>
   \<forall>x \<in> set co. toUpperCase pf (fst (snd x)) = fst (snd x) \<Longrightarrow>
     map (\<lambda>e. (path e, httpMethod e)) eps = map (\<lambda>(p, M, operation). (p, M)) co"
proof (induction co arbitrary: eps)
  case Nil
  then show ?case by simp
next
  case (Cons x co)
  from Cons.prems(1) obtain e eps' where eps: "eps = e # eps'"
    and e: "Inr e = (\<lambda>(p, M, operation). parseOperation pf p M operation) x"
    and rest: "map Inr eps' = map (\<lambda>(p, M, operation). parseOperation pf p M operation) co"
    by (cases eps) auto
  obtain p M operation where x: "x = (p, M, operation)" by (cases x)
  from e x have "parseOperation pf p M operation = Inr e" by simp
  from parseOperation_key [OF this] Cons.prems(2) x
  have "path e = p \<and> httpMethod e = M" by simp
  moreover from Cons.prems(2) have "\<forall>x \<in> set co. toUpperCase pf (fst (snd x)) = fst (snd x)"
    by simp
  ultimately show ?case
    using Cons.IH [OF rest] by (simp add: eps x)
qed

lemma canonicalOrder_single_keys:
  "distinct (map (\<lambda>(p, M, operation). (p, M)) (canonicalOrder [(p, entry)]))
   \<and> fst ` set (canonicalOrder [(p, entry)]) \<subseteq> {p}"
  by (auto simp: canonicalOrder_def operationFor_def split: option.splits)

lemma canonicalOrder_paths: "fst ` set (canonicalOrder ps) \<subseteq> fst ` set ps"
  by (force simp: canonicalOrder_def split: option.splits)

lemma canonicalOrder_distinct:
  "distinct (map fst ps) \<Longrightarrow> distinct (map (\<lambda>(p, M, operation). (p, M)) (canonicalOrder ps))"
proof (induction ps)
  case Nil
  show ?case by (simp add: canonicalOrder_def)
next
  case (Cons e ps)
  obtain p item where e: "e = (p, item)" by (cases e)
  from Cons.prems have p: "p \<notin> fst ` set ps" and d: "distinct (map fst ps)"
    by (simp_all add: e)
  have 1: "distinct (map (\<lambda>(p, M, operation). (p, M)) (canonicalOrder [(p, item)]))"
    and 2: "fst ` set (canonicalOrder [(p, item)]) \<subseteq> {p}"
    using canonicalOrder_single_keys by blast+
  have 3: "distinct (map (\<lambda>(p, M, operation). (p, M)) (canonicalOrder ps))"
    using d by (rule Cons.IH)
  have 4: "fst ` set (canonicalOrder ps) \<subseteq> fst ` set ps"
    by (rule canonicalOrder_paths)
  have "set (map (\<lambda>(p, M, operation). (p, M)) (canonicalOrder [(p, item)])) \<inter>
        set (map (\<lambda>(p, M, operation). (p, M)) (canonicalOrder ps)) = {}"
    using 2 4 p by force
  with 1 3 show ?case
    by (simp add: e canonicalOrder_Cons [of "(p, item)" ps])
qed

lemma started_endpoints:
  assumes "FortnoxMCPServer pf src = Inr srv"
  shows "\<exists>spec ps. src = Parsed spec \<and> parser srv = spec \<and> paths spec = Some ps \<and>
           map Inr (endpoints srv) =
             map (\<lambda>(p, M, operation). parseOperation pf p M operation) (canonicalOrder ps) \<and>
           list_all (\<lambda>(p, entry). entry \<noteq> None) ps"
proof -
  from assms obtain spec ps found where src: "src = Parsed spec"
    and ps: "paths spec = Some ps"
    and found: "collect (map (pathEndpoints pf) ps) = Inr found"
    and srv: "srv = \<lparr> parser = spec, endpoints = concat found \<rparr>"
    by (auto simp: FortnoxMCPServer_def OpenAPIParser_def getAllEndpoints_def
        split: option.splits sum.splits source.splits)
  from found have "map (pathEndpoints pf) ps = map Inr found"
    by (simp add: collect_Inr)
  from endpoints_canonical [OF this] src ps srv show ?thesis
    by simp
qed

lemma started_keys:
  assumes "FortnoxMCPServer pf src = Inr srv"
  shows "\<exists>spec ps. src = Parsed spec \<and> paths spec = Some ps \<and>
           map (\<lambda>e. (path e, httpMethod e)) (endpoints srv) =
             map (\<lambda>(p, M, operation). (p, M)) (canonicalOrder ps)"
proof -
  from started_endpoints [OF assms] obtain spec ps where src: "src = Parsed spec"
    and ps: "paths spec = Some ps"
    and e: "map Inr (endpoints srv) =
      map (\<lambda>(p, M, operation). parseOperation pf p M operation) (canonicalOrder ps)"
    by blast
  have "\<forall>x \<in> set (canonicalOrder ps). toUpperCase pf (fst (snd x)) = fst (snd x)"
    using canonicalOrder_method [of _ _ _ ps pf] by auto
  from key_canonical [OF e this] src ps show ?thesis by simp
qed


lemma listAll_noFilters:
  "listAllEndpoints pf srv noFilters =
     \<lparr> totalFound = length (endpoints srv), showing = length (endpoints srv),
       result = map summarize (endpoints srv) \<rparr>"
  by (simp add: listAllEndpoints_def noFilters_def slice0_def Let_def)

lemmas start_defs =
  FortnoxMCPServer_def OpenAPIParser_def getAllEndpoints_def aDocument_def pathEndpoints_def
  methods_def noOperations_def parseOperation_def anOperation_def anEndpoint_def

lemma customersServer_started:
  "FortnoxMCPServer pf (Parsed (aDocument customersPaths)) = Inr customersServer"
  by (simp add: start_defs customersPaths_def customersServer_def toUpperCase_methods)

text \<open>
  C1. The index of a started server lists the operations of the document path by path
  in the document's key order and, within a path, in the order GET, POST, PUT, DELETE,
  PATCH, one endpoint per operation that is present, so that no pair of a path and a
  method occurs twice when no path does; listing without filters returns one entry per
  endpoint of the index, in this order, and reports their number.
\<close>

theorem listAll_canonical_order:
  assumes "FortnoxMCPServer pf (Parsed spec) = Inr srv"
  shows "\<exists>ps. paths spec = Some ps
     \<and> list_all (\<lambda>(p, entry). entry \<noteq> None) ps
     \<and> map Inr (endpoints srv) =
         map (\<lambda>(p, M, operation). parseOperation pf p M operation) (canonicalOrder ps)
     \<and> map (\<lambda>e. (path e, httpMethod e)) (endpoints srv) =
         map (\<lambda>(p, M, operation). (p, M)) (canonicalOrder ps)
     \<and> result (listAllEndpoints pf srv noFilters) = map summarize (endpoints srv)
     \<and> map (\<lambda>s. (es_path s, es_method s)) (result (listAllEndpoints pf srv noFilters)) =
         map (\<lambda>(p, M, operation). (p, M)) (canonicalOrder ps)
     \<and> totalFound (listAllEndpoints pf srv noFilters) = length (endpoints srv)
     \<and> (distinct (map fst ps) \<longrightarrow>
          distinct (map (\<lambda>e. (path e, httpMethod e)) (endpoints srv)))"
proof -
  from started_endpoints [OF assms] obtain ps where ps: "paths spec = Some ps"
    and e: "map Inr (endpoints srv) =
      map (\<lambda>(p, M, operation). parseOperation pf p M operation) (canonicalOrder ps)"
    and n: "list_all (\<lambda>(p, entry). entry \<noteq> None) ps"
    by auto
  from started_keys [OF assms] ps
  have k: "map (\<lambda>e. (path e, httpMethod e)) (endpoints srv) =
      map (\<lambda>(p, M, operation). (p, M)) (canonicalOrder ps)"
    by auto
  have s: "map (\<lambda>s. (es_path s, es_method s)) (map summarize (endpoints srv)) =
      map (\<lambda>e. (path e, httpMethod e)) (endpoints srv)"
    by (simp add: summarize_def comp_def)
  have d: "distinct (map fst ps) \<longrightarrow>
      distinct (map (\<lambda>e. (path e, httpMethod e)) (endpoints srv))"
    using k canonicalOrder_distinct [of ps] by simp
  show ?thesis
    using ps e n k s d by (simp add: listAll_noFilters)
qed

theorem listAll_canonical_order_witness:
  "FortnoxMCPServer examplePlatform (Parsed (aDocument customersPaths)) = Inr customersServer
   \<and> map (\<lambda>s. (es_path s, es_method s))
       (result (listAllEndpoints examplePlatform customersServer noFilters)) =
       [(''/3/customers'', ''GET''), (''/3/customers'', ''POST'')]
   \<and> totalFound (listAllEndpoints examplePlatform customersServer noFilters) = 2
   \<and> distinct (map fst customersPaths)
   \<and> distinct (map (\<lambda>e. (path e, httpMethod e)) (endpoints customersServer))"
proof -
  from listAll_canonical_order [OF customersServer_started, of examplePlatform]
  obtain ps where ps: "paths (aDocument customersPaths) = Some ps"
    and r: "map (\<lambda>s. (es_path s, es_method s))
              (result (listAllEndpoints examplePlatform customersServer noFilters)) =
            map (\<lambda>(p, M, operation). (p, M)) (canonicalOrder ps)"
    and n: "totalFound (listAllEndpoints examplePlatform customersServer noFilters) =
            length (endpoints customersServer)"
    and d: "distinct (map fst ps) \<longrightarrow>
            distinct (map (\<lambda>e. (path e, httpMethod e)) (endpoints customersServer))"
    by blast
  from ps have c: "ps = customersPaths" by (simp add: aDocument_def)
  have p: "distinct (map fst customersPaths)"
    by (simp add: customersPaths_def)
  from c have "map (\<lambda>(p, M, operation). (p, M)) (canonicalOrder ps) =
      [(''/3/customers'', ''GET''), (''/3/customers'', ''POST'')]"
    by (simp add: customersPaths_def canonicalOrder_def operationFor_def noOperations_def)
  moreover from d c p
  have "distinct (map (\<lambda>e. (path e, httpMethod e)) (endpoints customersServer))"
    by simp
  moreover have "length (endpoints customersServer) = 2"
    by (simp add: customersServer_def)
  ultimately show ?thesis
    using r n p customersServer_started by simp
qed

subsection \<open>Loading and starting\<close>

lemma pathEndpoints_fails:
  "isl (pathEndpoints pf (p, entry)) \<longleftrightarrow>
     (case entry of None \<Rightarrow> True | Some item \<Rightarrow> list_ex illFormed (operationsOf item))"
  by (cases entry)
     (auto simp: pathEndpoints_def collect_isl methods_def operationsOf_def
        parseOperation_fails split: option.splits)

lemma pathEndpoints_error: "pathEndpoints pf entry = Inl e \<Longrightarrow> e = TypeError"
proof (cases "snd entry")
  case None
  then show "pathEndpoints pf entry = Inl e \<Longrightarrow> e = TypeError"
    by (simp add: pathEndpoints_def)
next
  case (Some item)
  have c: "collect rs = Inl e \<Longrightarrow> Inl e \<in> set rs" for rs :: "(js_error + FortnoxEndpoint) list"
    by (induction rs) (auto split: sum.splits)
  have p: "parseOperation pf q m operation = Inl e \<Longrightarrow> e = TypeError" for q m operation
    by (auto simp: parseOperation_def Let_def split: option.splits)
  assume "pathEndpoints pf entry = Inl e"
  with Some have "collect (concat (map (\<lambda>(m, field).
       case field item of
         None \<Rightarrow> []
       | Some operation \<Rightarrow> [parseOperation pf (fst entry) m operation]) methods)) = Inl e"
    by (simp add: pathEndpoints_def)
  from c [OF this] have "Inl e \<in> set (concat (map (\<lambda>(m, field).
       case field item of
         None \<Rightarrow> []
       | Some operation \<Rightarrow> [parseOperation pf (fst entry) m operation]) methods))" .
  then show "e = TypeError"
    using p by (auto simp: methods_def split: option.splits)
qed

lemma getAllEndpoints_fails: "isl (getAllEndpoints pf spec) \<longleftrightarrow> \<not> indexable spec"
proof (cases "paths spec")
  case None
  then show ?thesis by (simp add: getAllEndpoints_def indexable_def)
next
  case (Some ps)
  have "isl (getAllEndpoints pf spec) \<longleftrightarrow> isl (collect (map (pathEndpoints pf) ps))"
    using Some by (simp add: getAllEndpoints_def split: sum.splits)
  also have "\<dots> \<longleftrightarrow> (\<exists>entry \<in> set ps. isl (pathEndpoints pf entry))"
    by (simp add: collect_isl list_ex_iff)
  also have "\<dots> \<longleftrightarrow> \<not> indexable spec"
  proof -
    have "isl (pathEndpoints pf x) \<longleftrightarrow>
        \<not> (case x of (p, entry) \<Rightarrow>
            case entry of
              None \<Rightarrow> False
            | Some item \<Rightarrow> list_all (\<lambda>operation. \<not> illFormed operation) (operationsOf item))"
      for x
    proof -
      obtain p entry where x: "x = (p, entry)" by (cases x)
      show ?thesis
        unfolding x pathEndpoints_fails
        by (cases entry) (simp_all add: list_all_iff list_ex_iff)
    qed
    then show ?thesis
      using Some by (simp add: indexable_def list_all_iff [of _ ps])
  qed
  finally show ?thesis .
qed

lemma getAllEndpoints_error: "getAllEndpoints pf spec = Inl e \<Longrightarrow> e = TypeError"
proof -
  have c: "collect rs = Inl e \<Longrightarrow> Inl e \<in> set rs" for rs :: "(js_error + FortnoxEndpoint list) list"
    by (induction rs) (auto split: sum.splits)
  assume a: "getAllEndpoints pf spec = Inl e"
  show "e = TypeError"
  proof (cases "paths spec")
    case None
    with a show ?thesis by (simp add: getAllEndpoints_def)
  next
    case (Some ps)
    with a have "collect (map (pathEndpoints pf) ps) = Inl e"
      by (simp add: getAllEndpoints_def split: sum.splits)
    from c [OF this] obtain entry where "pathEndpoints pf entry = Inl e" by auto
    then show ?thesis by (rule pathEndpoints_error)
  qed
qed

lemma getAllEndpoints_fields:
  "getAllEndpoints pf (spec \<lparr> info := i, servers := s, components := c \<rparr>) =
     getAllEndpoints pf spec"
  by (simp add: getAllEndpoints_def)

text \<open>
  C2 (amended). The start of the server fails with the exception of the loader when the
  file cannot be read or its text is not JSON, and with a TypeError raised while the
  index is built when the document parsed cannot be indexed: it has no \<open>paths\<close>, a path
  item is \<^verbatim>\<open>null\<close>, or an operation has no \<^verbatim>\<open>responses\<close> or a request body
  without \<^verbatim>\<open>content\<close>. It fails in no other case. No top-level field is checked:
  the fields \<open>info\<close>, \<open>servers\<close> and \<open>components\<close> have no influence on the start
  and on the index.
\<close>

theorem startup_failure:
  "(FortnoxMCPServer pf src = Inl e \<longleftrightarrow>
      src = Unreadable \<and> e = ReadError
    \<or> src = Unparseable \<and> e = SyntaxError
    \<or> (\<exists>spec. src = Parsed spec \<and> \<not> indexable spec \<and> e = TypeError))
   \<and> (\<forall>spec i s c.
        isl (FortnoxMCPServer pf (Parsed (spec \<lparr> info := i, servers := s, components := c \<rparr>)))
          = isl (FortnoxMCPServer pf (Parsed spec)))
   \<and> (\<forall>spec srv i s c. FortnoxMCPServer pf (Parsed spec) = Inr srv \<longrightarrow>
        parser srv = spec
      \<and> FortnoxMCPServer pf (Parsed (spec \<lparr> info := i, servers := s, components := c \<rparr>)) =
          Inr (srv \<lparr> parser := spec \<lparr> info := i, servers := s, components := c \<rparr> \<rparr>))"
proof (intro conjI allI impI)
  show "FortnoxMCPServer pf src = Inl e \<longleftrightarrow>
      src = Unreadable \<and> e = ReadError
    \<or> src = Unparseable \<and> e = SyntaxError
    \<or> (\<exists>spec. src = Parsed spec \<and> \<not> indexable spec \<and> e = TypeError)"
  proof (cases src)
    case Unreadable
    then show ?thesis by (auto simp: FortnoxMCPServer_def OpenAPIParser_def)
  next
    case Unparseable
    then show ?thesis by (auto simp: FortnoxMCPServer_def OpenAPIParser_def)
  next
    case (Parsed spec)
    show ?thesis
    proof (cases "getAllEndpoints pf spec")
      case (Inl x)
      with getAllEndpoints_fails [of pf spec] getAllEndpoints_error [of pf spec x] Parsed
      show ?thesis by (auto simp: FortnoxMCPServer_def OpenAPIParser_def)
    next
      case (Inr eps)
      with getAllEndpoints_fails [of pf spec] Parsed
      show ?thesis by (auto simp: FortnoxMCPServer_def OpenAPIParser_def)
    qed
  qed
next
  fix spec i s c
  show "isl (FortnoxMCPServer pf (Parsed (spec \<lparr> info := i, servers := s, components := c \<rparr>)))
          = isl (FortnoxMCPServer pf (Parsed spec))"
    by (simp add: FortnoxMCPServer_def OpenAPIParser_def getAllEndpoints_fields
        split: sum.splits)
next
  fix spec srv i s c
  assume "FortnoxMCPServer pf (Parsed spec) = Inr srv"
  then show "parser srv = spec"
    by (auto simp: FortnoxMCPServer_def OpenAPIParser_def split: sum.splits)
next
  fix spec srv i s c
  assume "FortnoxMCPServer pf (Parsed spec) = Inr srv"
  then show "FortnoxMCPServer pf (Parsed (spec \<lparr> info := i, servers := s, components := c \<rparr>)) =
          Inr (srv \<lparr> parser := spec \<lparr> info := i, servers := s, components := c \<rparr> \<rparr>)"
    by (auto simp: FortnoxMCPServer_def OpenAPIParser_def getAllEndpoints_fields
        split: sum.splits)
qed

lemmas example_paths =
  indexable_def operationsOf_def illFormed_def aDocument_def customersPaths_def
  noOperations_def anOperation_def

theorem startup_failure_witness:
  "FortnoxMCPServer examplePlatform (Parsed noPathsSpec) = Inl TypeError
   \<and> FortnoxMCPServer examplePlatform (Parsed nullPathSpec) = Inl TypeError
   \<and> FortnoxMCPServer examplePlatform (Parsed noResponsesSpec) = Inl TypeError
   \<and> FortnoxMCPServer examplePlatform (Parsed noContentSpec) = Inl TypeError
   \<and> FortnoxMCPServer examplePlatform Unparseable = Inl SyntaxError
   \<and> FortnoxMCPServer examplePlatform (Parsed (aDocument customersPaths)) = Inr customersServer
   \<and> FortnoxMCPServer examplePlatform (Parsed incompleteSpec) = Inr incompleteServer"
proof -
  note t = startup_failure [of examplePlatform]
  have 1: "FortnoxMCPServer examplePlatform (Parsed noPathsSpec) = Inl TypeError"
    using t [of "Parsed noPathsSpec" TypeError]
    by (simp add: noPathsSpec_def indexable_def)
  have 2: "FortnoxMCPServer examplePlatform (Parsed nullPathSpec) = Inl TypeError"
    using t [of "Parsed nullPathSpec" TypeError]
    by (simp add: nullPathSpec_def example_paths)
  have 3: "FortnoxMCPServer examplePlatform (Parsed noResponsesSpec) = Inl TypeError"
    using t [of "Parsed noResponsesSpec" TypeError]
    by (simp add: noResponsesSpec_def withoutResponses_def example_paths)
  have 4: "FortnoxMCPServer examplePlatform (Parsed noContentSpec) = Inl TypeError"
    using t [of "Parsed noContentSpec" TypeError]
    by (simp add: noContentSpec_def withoutContent_def example_paths)
  have 5: "FortnoxMCPServer examplePlatform Unparseable = Inl SyntaxError"
    using t [of Unparseable SyntaxError] by simp
  have 6: "FortnoxMCPServer examplePlatform (Parsed (aDocument customersPaths)) =
      Inr customersServer"
    by (rule customersServer_started)
  from t [of "Parsed (aDocument customersPaths)" TypeError] 6
  have "FortnoxMCPServer examplePlatform (Parsed ((aDocument customersPaths)
           \<lparr> info := None, servers := None, components := None \<rparr>)) =
        Inr (customersServer \<lparr> parser := (aDocument customersPaths)
           \<lparr> info := None, servers := None, components := None \<rparr> \<rparr>)"
    by blast
  then have 7: "FortnoxMCPServer examplePlatform (Parsed incompleteSpec) = Inr incompleteServer"
    by (simp add: incompleteSpec_def incompleteServer_def customersServer_def)
  from 1 2 3 4 5 6 7 show ?thesis by blast
qed

text \<open>
  C2 as stated fails: a document without \<open>info\<close> and without \<open>components\<close> is
  loaded, the server starts, and listing answers.
\<close>

theorem loader_validation_counterexample:
  "info incompleteSpec = None \<and> components incompleteSpec = None
   \<and> OpenAPIParser (Parsed incompleteSpec) = Inr incompleteSpec
   \<and> FortnoxMCPServer examplePlatform (Parsed incompleteSpec) = Inr incompleteServer
   \<and> totalFound (listAllEndpoints examplePlatform incompleteServer noFilters) = 2"
  by (simp add: start_defs incompleteSpec_def incompleteServer_def customersPaths_def
      customersServer_def toUpperCase_methods listAll_noFilters)

subsection \<open>Substrings\<close>

lemma str_includes_iff: "str_includes s k \<longleftrightarrow> (\<exists>a b. s = a @ k @ b)"
proof (induction s)
  case Nil
  show ?case by auto
next
  case (Cons c cs)
  show ?case
  proof
    assume "str_includes (c # cs) k"
    then consider "prefix k (c # cs)" | "str_includes cs k" by auto
    then show "\<exists>a b. c # cs = a @ k @ b"
    proof cases
      case 1
      then obtain b where "c # cs = k @ b" by (auto simp: prefix_def)
      then have "c # cs = [] @ k @ b" by simp
      then show ?thesis by blast
    next
      case 2
      with Cons.IH obtain a b where "cs = a @ k @ b" by auto
      then have "c # cs = (c # a) @ k @ b" by simp
      then show ?thesis by blast
    qed
  next
    assume "\<exists>a b. c # cs = a @ k @ b"
    then obtain a b where ab: "c # cs = a @ k @ b" by auto
    show "str_includes (c # cs) k"
    proof (cases a)
      case Nil
      with ab have "prefix k (c # cs)" by (simp add: prefix_def)
      then show ?thesis by simp
    next
      case (Cons x a')
      with ab have "cs = a' @ k @ b" by simp
      with Cons.IH show ?thesis by auto
    qed
  qed
qed

lemma str_includes_middle: "str_includes (a @ k @ b) k"
  by (auto simp: str_includes_iff)

subsection \<open>getEndpointDetails\<close>

lemma endpointNotFound_mentions:
  "str_includes (endpointNotFound m p) ''search_endpoints''"
  "str_includes (endpointNotFound m p) ''list_all_endpoints''"
proof -
  have "endpointNotFound m p =
      (''Endpoint not found: '' @ m @ '' '' @ p @ [newline, newline] @ ''Tip: Use '') @
      ''search_endpoints'' @ '' or list_all_endpoints to find the correct path.''"
    by (simp add: endpointNotFound_def)
  then show "str_includes (endpointNotFound m p) ''search_endpoints''"
    by (simp only: str_includes_middle)
  have "endpointNotFound m p =
      (''Endpoint not found: '' @ m @ '' '' @ p @ [newline, newline] @
       ''Tip: Use search_endpoints or '') @
      ''list_all_endpoints'' @ '' to find the correct path.''"
    by (simp add: endpointNotFound_def)
  then show "str_includes (endpointNotFound m p) ''list_all_endpoints''"
    by (simp only: str_includes_middle)
qed

text \<open>
  C6. The lookup compares the path as given and the method in upper case. When an
  endpoint of the index has this key, the answer is a record of such an endpoint: its
  path is the given path and its method the given method in upper case. When none has,
  the answer is a result marked as an error, not an exception, whose message names the
  tools \<^verbatim>\<open>search_endpoints\<close> and \<^verbatim>\<open>list_all_endpoints\<close>.
\<close>

theorem getEndpointDetails_lookup:
  "if list_ex (hasKey pf p m) (endpoints srv)
   then \<exists>d. getEndpointDetails pf srv p m = Content d
          \<and> d_endpoint d \<in> set (endpoints srv)
          \<and> path (d_endpoint d) = p \<and> httpMethod (d_endpoint d) = toUpperCase pf m
   else \<exists>msg. getEndpointDetails pf srv p m = IsError msg
          \<and> str_includes msg ''search_endpoints'' \<and> str_includes msg ''list_all_endpoints''"
proof (cases "find (\<lambda>e. path e = p \<and> httpMethod e = toUpperCase pf m) (endpoints srv)")
  case None
  then have no: "\<not> list_ex (hasKey pf p m) (endpoints srv)"
    by (auto simp: find_None_iff list_ex_iff hasKey_def)
  show ?thesis
    using None no endpointNotFound_mentions [of "toUpperCase pf m" p]
    by (simp add: getEndpointDetails_def Let_def)
next
  case (Some e)
  then have e: "e \<in> set (endpoints srv)" "path e = p" "httpMethod e = toUpperCase pf m"
    by (auto simp: find_Some_iff)
  then have yes: "list_ex (hasKey pf p m) (endpoints srv)"
    by (auto simp: list_ex_iff hasKey_def)
  show ?thesis
    using Some e yes by (simp add: getEndpointDetails_def Let_def)
qed

theorem getEndpointDetails_lookup_witness:
  "(\<exists>d. getEndpointDetails examplePlatform customersServer ''/3/customers'' ''get'' = Content d
        \<and> path (d_endpoint d) = ''/3/customers'' \<and> httpMethod (d_endpoint d) = ''GET'')
   \<and> (\<exists>msg. getEndpointDetails examplePlatform customersServer ''/3/Customers'' ''GET'' =
          IsError msg
        \<and> str_includes msg ''search_endpoints'' \<and> str_includes msg ''list_all_endpoints'')"
proof -
  have a: "list_ex (hasKey examplePlatform ''/3/customers'' ''get'') (endpoints customersServer)"
    by (simp add: customersServer_def anEndpoint_def hasKey_def toUpperCase_methods)
  have b: "\<not> list_ex (hasKey examplePlatform ''/3/Customers'' ''GET'')
             (endpoints customersServer)"
    by (simp add: customersServer_def anEndpoint_def hasKey_def toUpperCase_methods)
  have u: "toUpperCase examplePlatform ''get'' = ''GET''"
    by (simp add: toUpperCase_methods)
  from a getEndpointDetails_lookup
    [of examplePlatform "''/3/customers''" "''get''" customersServer]
  have 1: "\<exists>d. getEndpointDetails examplePlatform customersServer ''/3/customers'' ''get'' =
          Content d
        \<and> path (d_endpoint d) = ''/3/customers'' \<and> httpMethod (d_endpoint d) = ''GET''"
    unfolding u by auto
  from b getEndpointDetails_lookup
    [of examplePlatform "''/3/Customers''" "''GET''" customersServer]
  have 2: "\<exists>msg. getEndpointDetails examplePlatform customersServer ''/3/Customers'' ''GET'' =
          IsError msg
        \<and> str_includes msg ''search_endpoints'' \<and> str_includes msg ''list_all_endpoints''"
    by simp
  from 1 2 show ?thesis by blast
qed

subsection \<open>parseOperation\<close>






subsection \<open>getSchemaDescription\<close>

lemma replace_prefix: "prefix pat s \<Longrightarrow> replace s pat [] = drop (length pat) s"
  by (cases s) auto

lemma replace_own_prefix: "replace (pat @ s) pat [] = s"
  using replace_prefix [of pat "pat @ s"] by simp

lemma resolve_named:
  "resolveSchemaRef spec (''#/components/schemas/'' @ name) = Own target \<longleftrightarrow>
     lookupSchema spec name = Some target"
  using replace_own_prefix [of "''#/components/schemas/''" name]
  by (auto simp: resolveSchemaRef_def startsWith_def lookupSchema_def getProperty_def
      split: option.splits)

lemma resolve_other:
  "\<not> prefix ''#/components/schemas/'' r \<Longrightarrow> resolveSchemaRef spec r = Undefined"
  by (simp add: resolveSchemaRef_def startsWith_def)

lemma withoutRef_fields:
  "schema_type (withoutRef schema) = schema_type schema"
  "schema_description (withoutRef schema) = schema_description schema"
  "schema_properties (withoutRef schema) = schema_properties schema"
  "schema_items (withoutRef schema) = schema_items schema"
  "schema_ref (withoutRef schema) = None"
  by (simp_all add: withoutRef_def)

text \<open>
  C10 (amended). For a schema whose reference is a non-empty string, the description is
  the description of the schema the reference resolves to when that description is a
  non-empty string, and the text \<^verbatim>\<open>Schema reference\<close> otherwise: when the target has
  no description or an empty one, when the reference has not the shape
  \<^verbatim>\<open>#/components/schemas/<name>\<close>, and when no schema is registered under that
  name. A reference of that shape resolves to a schema exactly when one is registered
  under the name. The target is looked up once and never followed further. A schema
  whose reference is the empty string is described as the same schema without a
  reference.
\<close>

theorem describe_reference:
  "(\<forall>r. schema_ref schema = Some r \<and> r \<noteq> [] \<longrightarrow>
       getSchemaDescription spec schema =
         (case resolveSchemaRef spec r of
            Own target \<Rightarrow>
              (case schema_description target of
                 None \<Rightarrow> ''Schema reference''
               | Some d \<Rightarrow> if d = [] then ''Schema reference'' else d)
          | _ \<Rightarrow> ''Schema reference'')
     \<and> (\<forall>name target. r = ''#/components/schemas/'' @ name \<longrightarrow>
            (resolveSchemaRef spec r = Own target \<longleftrightarrow> lookupSchema spec name = Some target))
     \<and> (\<not> prefix ''#/components/schemas/'' r \<longrightarrow>
            getSchemaDescription spec schema = ''Schema reference'')
     \<and> (\<forall>name. r = ''#/components/schemas/'' @ name \<and> lookupSchema spec name = None \<longrightarrow>
            getSchemaDescription spec schema = ''Schema reference''))
   \<and> (schema_ref schema = Some [] \<longrightarrow>
        getSchemaDescription spec schema = getSchemaDescription spec (withoutRef schema))"
proof (intro conjI allI impI)
  fix r
  assume "schema_ref schema = Some r \<and> r \<noteq> []"
  then show "getSchemaDescription spec schema =
       (case resolveSchemaRef spec r of
          Own target \<Rightarrow>
            (case schema_description target of
               None \<Rightarrow> ''Schema reference''
             | Some d \<Rightarrow> if d = [] then ''Schema reference'' else d)
        | _ \<Rightarrow> ''Schema reference'')"
    by (simp add: getSchemaDescription_def truthy_def str_def or_default_def
        split: option.splits property.splits)
  then have d: "getSchemaDescription spec schema = ''Schema reference''"
    if "\<And>target. resolveSchemaRef spec r \<noteq> Own target"
    using that by (cases "resolveSchemaRef spec r") auto
  show "resolveSchemaRef spec r = Own target \<longleftrightarrow> lookupSchema spec name = Some target"
    if "r = ''#/components/schemas/'' @ name" for name target
    unfolding that by (rule resolve_named)
  show "getSchemaDescription spec schema = ''Schema reference''"
    if "\<not> prefix ''#/components/schemas/'' r"
    using d resolve_other [OF that, of spec] by simp
  show "getSchemaDescription spec schema = ''Schema reference''"
    if "r = ''#/components/schemas/'' @ name \<and> lookupSchema spec name = None" for name
    using d that resolve_named [of spec name] by simp
next
  assume "schema_ref schema = Some []"
  then show "getSchemaDescription spec schema = getSchemaDescription spec (withoutRef schema)"
    unfolding getSchemaDescription_def withoutRef_fields
    by (simp add: truthy_def)
qed

theorem describe_reference_witness:
  "getSchemaDescription schemasSpec (refSchema ''#/components/schemas/Customer'') = ''A customer''
   \<and> getSchemaDescription schemasSpec (refSchema ''#/components/schemas/Alias'') =
       ''Schema reference''
   \<and> getSchemaDescription schemasSpec (refSchema ''#/components/schemas/Order'') =
       ''Schema reference''
   \<and> getSchemaDescription schemasSpec (refSchema ''#/components/schemas/constructor'') =
       ''Schema reference''
   \<and> getSchemaDescription schemasSpec (refSchema ''Customer'') = ''Schema reference''
   \<and> getSchemaDescription schemasSpec (refSchema []) =
       getSchemaDescription schemasSpec emptySchema"
proof -
  have l: "lookupSchema schemasSpec ''Customer'' = Some (describedSchema ''A customer'')"
    "lookupSchema schemasSpec ''Alias'' = Some (refSchema ''#/components/schemas/Customer'')"
    "lookupSchema schemasSpec ''Order'' = None"
    "lookupSchema schemasSpec ''constructor'' = None"
    by (simp_all add: lookupSchema_def schemasSpec_def aDocument_def)
  have s: "schema_ref (refSchema x) = Some x" for x
    by (simp add: refSchema_def)
  have t: "getSchemaDescription schemasSpec (refSchema r) =
         (case resolveSchemaRef schemasSpec r of
            Own target \<Rightarrow>
              (case schema_description target of
                 None \<Rightarrow> ''Schema reference''
               | Some d \<Rightarrow> if d = [] then ''Schema reference'' else d)
          | _ \<Rightarrow> ''Schema reference'')
     \<and> (\<forall>name target. r = ''#/components/schemas/'' @ name \<longrightarrow>
            (resolveSchemaRef schemasSpec r = Own target \<longleftrightarrow>
             lookupSchema schemasSpec name = Some target))
     \<and> (\<not> prefix ''#/components/schemas/'' r \<longrightarrow>
            getSchemaDescription schemasSpec (refSchema r) = ''Schema reference'')
     \<and> (\<forall>name. r = ''#/components/schemas/'' @ name \<and> lookupSchema schemasSpec name = None \<longrightarrow>
            getSchemaDescription schemasSpec (refSchema r) = ''Schema reference'')"
    if "r \<noteq> []" for r
    using describe_reference [of "refSchema r" schemasSpec] s [of r] that by blast
  have e: "getSchemaDescription schemasSpec (refSchema []) =
      getSchemaDescription schemasSpec (withoutRef (refSchema []))"
    using describe_reference [of "refSchema []" schemasSpec] s [of "[]"] by blast
  have "resolveSchemaRef schemasSpec ''#/components/schemas/Customer'' =
      Own (describedSchema ''A customer'')"
    using t [of "''#/components/schemas/Customer''"] l by simp
  with t [of "''#/components/schemas/Customer''"]
  have 1: "getSchemaDescription schemasSpec (refSchema ''#/components/schemas/Customer'') =
      ''A customer''"
    by (simp add: describedSchema_def)
  have "resolveSchemaRef schemasSpec ''#/components/schemas/Alias'' =
      Own (refSchema ''#/components/schemas/Customer'')"
    using t [of "''#/components/schemas/Alias''"] l by simp
  with t [of "''#/components/schemas/Alias''"]
  have 2: "getSchemaDescription schemasSpec (refSchema ''#/components/schemas/Alias'') =
      ''Schema reference''"
    by (simp add: refSchema_def)
  have o: "''#/components/schemas/Order'' = ''#/components/schemas/'' @ ''Order''"
    and c: "''#/components/schemas/constructor'' = ''#/components/schemas/'' @ ''constructor''"
    by simp_all
  from t [of "''#/components/schemas/Order''"]
  have "\<forall>name. ''#/components/schemas/Order'' = ''#/components/schemas/'' @ name \<and>
          lookupSchema schemasSpec name = None \<longrightarrow>
          getSchemaDescription schemasSpec (refSchema ''#/components/schemas/Order'') =
            ''Schema reference''"
    by blast
  with o l(3)
  have 3: "getSchemaDescription schemasSpec (refSchema ''#/components/schemas/Order'') =
      ''Schema reference''"
    by blast
  from t [of "''#/components/schemas/constructor''"]
  have "\<forall>name. ''#/components/schemas/constructor'' = ''#/components/schemas/'' @ name \<and>
          lookupSchema schemasSpec name = None \<longrightarrow>
          getSchemaDescription schemasSpec (refSchema ''#/components/schemas/constructor'') =
            ''Schema reference''"
    by blast
  with c l(4)
  have 4: "getSchemaDescription schemasSpec (refSchema ''#/components/schemas/constructor'') =
      ''Schema reference''"
    by blast
  have "\<not> prefix ''#/components/schemas/'' ''Customer''"
    by simp
  with t [of "''Customer''"]
  have 5: "getSchemaDescription schemasSpec (refSchema ''Customer'') = ''Schema reference''"
    by auto
  from e have 6: "getSchemaDescription schemasSpec (refSchema []) =
      getSchemaDescription schemasSpec emptySchema"
    by (simp add: withoutRef_def refSchema_def emptySchema_def)
  from 1 2 3 4 5 6 show ?thesis by simp
qed

text \<open>
  C10 as stated fails for a reference set to the empty string: it is falsy, the schema
  is described as an inline schema, here by the text \<^verbatim>\<open>unknown\<close>.
\<close>

theorem empty_reference_counterexample:
  "schema_ref (refSchema []) = Some []
   \<and> getSchemaDescription schemasSpec (refSchema []) = ''unknown''"
  by (simp add: getSchemaDescription_def refSchema_def truthy_def or_default_def)

text \<open>
  A name that is not registered resolves to the member that every object inherits under
  it, which is no schema and has no description.
\<close>

lemma inherited_reference:
  "resolveSchemaRef schemasSpec ''#/components/schemas/constructor'' = Inherited ''constructor''"
  "resolveSchemaRef schemasSpec ''#/components/schemas/__proto__'' = Inherited ''__proto__''"
  "resolveSchemaRef schemasSpec ''#/components/schemas/Order'' = Undefined"
  by (simp_all add: resolveSchemaRef_def startsWith_def schemasSpec_def aDocument_def
      getProperty_def objectPrototype_def)

subsection \<open>Array indices\<close>






subsection \<open>Counters\<close>

































subsection \<open>getAPIOverview\<close>





lemmas index_defs =
  isArrayIndex_def isDigit_def numericValue_def key_before_def increment_def getProperty_def
  objectPrototype_def

lemmas sort_defs =
  arraySort_def consistentOn_def byCountDesc_def isNegative_def isPositive_def












text \<open>
  A tag that is the name of an inherited member: \<^verbatim>\<open>__proto__\<close> is never counted,
  and under \<^verbatim>\<open>constructor\<close> the counter holds a text.
\<close>

lemma inherited_tags:
  "countTags [anEndpoint ''/n'' ''GET'' ''n'' (Some [''__proto__''])] = []"
  "countTags [anEndpoint ''/n'' ''GET'' ''n'' (Some [''constructor'', ''a'', ''constructor''])] =
     [(''constructor'', Junk ''constructor'' 2), (''a'', Number 1)]"
  "arraySort byCountDesc [(''constructor'', Junk ''constructor'' 2), (''a'', Number 1)] = None"
  by (simp_all add: countTags_def anEndpoint_def index_defs sort_defs)

subsection \<open>listAllEndpoints\<close>

text \<open>
  C3. At the limit 0 the program shows every endpoint that passes the filters: for the
  customers document a listing with the limit 0 and no filter finds two endpoints and
  shows both, where the first 0 entries of the filtered sequence are none.
\<close>

theorem listAll_limit_zero:
  "FortnoxMCPServer pf (Parsed (aDocument customersPaths)) = Inr customersServer
   \<and> listAllEndpoints pf customersServer (limitOnly 0) =
       \<lparr> totalFound = 2, showing = 2, result = map summarize (endpoints customersServer) \<rparr>
   \<and> listAll_spec pf (endpoints customersServer) (limitOnly 0) =
       \<lparr> totalFound = 2, showing = 0, result = [] \<rparr>"
  using customersServer_started [of pf]
  by (simp add: listAllEndpoints_def listAll_spec_def limitOnly_def matchesFilters_def
      slice0_def customersServer_def)

subsection \<open>searchEndpoints\<close>

text \<open>
  C4. At the limit 0 the program returns the first 20 matches: for the customers
  document a search for \<^verbatim>\<open>CUSTOMERS\<close> with the limit 0 has two matches and returns
  both, where the first 0 matches are none.
\<close>

theorem search_limit_zero:
  "FortnoxMCPServer pf (Parsed (aDocument customersPaths)) = Inr customersServer
   \<and> searchEndpoints pf customersServer ''CUSTOMERS'' (Some 0) =
       \<lparr> sr_keyword = ''customers'', sr_totalMatches = 2,
         sr_shown = endpoints customersServer \<rparr>
   \<and> filter (keywordOccurs pf ''CUSTOMERS'') (endpoints customersServer) =
       endpoints customersServer
   \<and> search_spec pf (endpoints customersServer) ''CUSTOMERS'' (Some 0) = []"
proof -
  have "searchEndpoints pf customersServer ''CUSTOMERS'' (Some 0) =
       \<lparr> sr_keyword = ''customers'', sr_totalMatches = 2,
         sr_shown = endpoints customersServer \<rparr>"
    by (simp add: searchEndpoints_def searchMatch_def fieldMatch_def slice0_def Let_def
        customersServer_def anEndpoint_def case_defs)
  moreover have "filter (keywordOccurs pf ''CUSTOMERS'') (endpoints customersServer) =
       endpoints customersServer"
    by (simp add: keywordOccurs_def occursIgnoringCase_def customersServer_def anEndpoint_def
        case_defs)
  moreover have "search_spec pf (endpoints customersServer) ''CUSTOMERS'' (Some 0) = []"
    by (simp add: search_spec_def)
  ultimately show ?thesis
    using customersServer_started [of pf] by simp
qed

subsection \<open>getEndpointsByResource\<close>

text \<open>
  C5. For a tag with the vendor prefix in its middle the program removes the prefix from
  the middle: the endpoint tagged \<^verbatim>\<open>Prefortnox_Sales\<close> is selected for the resource
  \<^verbatim>\<open>presales\<close>, though neither the tag contains the name nor the name contains the
  tag with its prefix stripped (the tag has no such prefix).
\<close>

theorem resource_prefix_middle:
  "FortnoxMCPServer pf (Parsed (aDocument salesPaths)) = Inr salesServer
   \<and> getEndpointsByResource pf salesServer ''presales'' =
       Content \<lparr> g_total = 1, g_list = endpoints salesServer, g_get = [], g_create = [],
                 g_update = [], g_delete = [] \<rparr>
   \<and> tags (hd (endpoints salesServer)) = Some [''Prefortnox_Sales'']
   \<and> resourceMatches_spec pf ''presales'' ''Prefortnox_Sales'' = False"
proof -
  have "FortnoxMCPServer pf (Parsed (aDocument salesPaths)) = Inr salesServer"
    by (simp add: start_defs salesPaths_def salesServer_def toUpperCase_methods)
  moreover have "getEndpointsByResource pf salesServer ''presales'' =
       Content \<lparr> g_total = 1, g_list = endpoints salesServer, g_get = [], g_create = [],
                 g_update = [], g_delete = [] \<rparr>"
    by (simp add: getEndpointsByResource_def matchingEndpoints_def tagMatches_def
        salesServer_def anEndpoint_def case_defs)
  moreover have "resourceMatches_spec pf ''presales'' ''Prefortnox_Sales'' = False"
    by (simp add: resourceMatches_spec_def stripVendorPrefix_def case_defs)
  ultimately show ?thesis
    by (simp add: salesServer_def anEndpoint_def)
qed

subsection \<open>listResourceGroups\<close>

lemma mixedServer_started:
  "FortnoxMCPServer pf (Parsed (aDocument mixedPaths)) = Inr mixedServer"
  by (simp add: start_defs mixedPaths_def mixedServer_def toUpperCase_methods)

lemma mixed_counts:
  "countTags (endpoints mixedServer) = [(''fortnox_Zebra'', Number 1), (''Orders'', Number 1)]"
  by (simp add: countTags_def mixedServer_def anEndpoint_def index_defs)

text \<open>
  C8. The program sorts the tags as they stand in the document and strips the prefix
  only when it prints them: with the tags \<^verbatim>\<open>fortnox_Zebra\<close> and \<^verbatim>\<open>Orders\<close> the
  list shows \<open>Zebra\<close> before \<open>Orders\<close>, though \<open>Orders\<close> is the smaller of the two
  names shown.
\<close>

theorem resource_groups_order:
  "FortnoxMCPServer examplePlatform (Parsed (aDocument mixedPaths)) = Inr mixedServer
   \<and> rg_all (listResourceGroups examplePlatform mixedServer) =
       Some [(''Zebra'', Number 1), (''Orders'', Number 1)]
   \<and> localeCompare examplePlatform ''Orders'' ''Zebra'' < 0
   \<and> localeCompare examplePlatform ''fortnox_Zebra'' ''Orders'' < 0"
proof -
  have "rg_all (listResourceGroups examplePlatform mixedServer) =
       Some [(''Zebra'', Number 1), (''Orders'', Number 1)]"
    by (simp add: listResourceGroups_def mixed_counts sort_defs examplePlatform_def
        alphaCompare_def case_defs)
  moreover have "localeCompare examplePlatform ''Orders'' ''Zebra'' < 0"
    "localeCompare examplePlatform ''fortnox_Zebra'' ''Orders'' < 0"
    by (simp_all add: examplePlatform_def alphaCompare_def case_defs)
  ultimately show ?thesis
    using mixedServer_started [of examplePlatform] by simp
qed

end
